theory Spec2Isabelle
  imports Complex_Main "HOL-Library.Char_ord" "HOL-Library.List_Lexorder"
begin

chapter \<open>Civil Engineering Insight Studio: the client and the analysis core\<close>

text \<open>
  The repository's code is the React client of the studio: \<open>apiService.js\<close> (the API
  client, with the \<open>App\<close> component and its \<open>handleAnalyze\<close>), the \<open>ImageUpload\<close>
  dropzone, the \<open>AnalysisTypeSelector\<close> and \<open>ResultsDisplay\<close>. The first part of this
  theory embeds these functions as they are written: JavaScript values as a datatype, a
  thrown value as the left injection of a sum, component state as a record that a handler
  returns updated, and the network as a parameter. The analysis core that the
  specification describes runs on the server; its MaterialMatcher and ResultAssembler are
  modelled from the specification in the second part. All definitions come first, the
  properties follow.
\<close>

section \<open>JavaScript values\<close>

text \<open>
  The front end is JavaScript: what travels between the server, \<open>apiService.js\<close>, the
  \<open>App\<close> component and \<open>ResultsDisplay\<close> are dynamically typed values (parsed JSON and
  the objects the client builds from it). They are modelled as a datatype; an object is
  the list of its own properties, the first entry of a name being the one that is read
  (a JSON text that repeats a name denotes the object with the value parsed last; here
  that object has this value in the name's first entry).
  A JSON number is a rational (no JSON text denotes NaN or an infinity); NaN only arises
  inside arithmetic and is the value \<open>None\<close> of \<open>to_number\<close>.
\<close>

datatype jsval =
    JUndefined
  | JNull
  | JBool bool
  | JNum rat
  | JStr string
  | JArr "jsval list"
  | JObj "(string \<times> jsval) list"

text \<open>
  A thrown value is a JavaScript value too. The engine's own \<open>TypeError\<close> (reading a
  property of \<open>null\<close> or \<open>undefined\<close>, calling something that is not a function)
  is an object whose \<open>message\<close> is an engine-chosen, non-empty text; the text below
  stands for it. A computation that can throw returns \<open>jsval + 'a\<close>, \<open>Inl\<close> the
  thrown value.
\<close>

definition type_error_text :: string where
  "type_error_text = ''TypeError: cannot read properties of null or undefined''"

definition TypeError :: jsval where
  "TypeError = JObj [(''name'', JStr ''TypeError''), (''message'', JStr type_error_text)]"

text \<open>Truthiness, as \<open>if (x)\<close>, \<open>!x\<close>, \<open>x || y\<close> and \<open>x && y\<close> read a value.\<close>

fun truthy :: "jsval \<Rightarrow> bool" where
  "truthy JUndefined = False"
| "truthy JNull = False"
| "truthy (JBool b) = b"
| "truthy (JNum n) = (n \<noteq> 0)"
| "truthy (JStr s) = (s \<noteq> [])"
| "truthy (JArr xs) = True"
| "truthy (JObj fs) = True"

definition js_or :: "jsval \<Rightarrow> jsval \<Rightarrow> jsval" where
  "js_or a b = (if truthy a then a else b)"

text \<open>
  \<open>field v k\<close> is the value of \<open>v.k\<close> for a data property \<open>k\<close> of a value that is
  neither \<open>null\<close> nor \<open>undefined\<close>: an object's own property, \<open>length\<close> of an array
  or a string, and \<open>undefined\<close> otherwise. (The keys read in this program are data keys
  of the wire format; none of them is a prototype property.) \<open>get\<close> is the property
  read itself, which throws on \<open>null\<close> and \<open>undefined\<close>.
\<close>

fun field :: "jsval \<Rightarrow> string \<Rightarrow> jsval" where
  "field (JObj fs) k = (case map_of fs k of None \<Rightarrow> JUndefined | Some v \<Rightarrow> v)"
| "field (JArr xs) k = (if k = ''length'' then JNum (of_nat (length xs)) else JUndefined)"
| "field (JStr s) k = (if k = ''length'' then JNum (of_nat (length s)) else JUndefined)"
| "field v k = JUndefined"

fun nullish :: "jsval \<Rightarrow> bool" where
  "nullish JUndefined = True"
| "nullish JNull = True"
| "nullish v = False"

definition get :: "jsval \<Rightarrow> string \<Rightarrow> jsval + jsval" where
  "get v k = (if nullish v then Inl TypeError else Inr (field v k))"

fun is_str :: "jsval \<Rightarrow> bool" where
  "is_str (JStr s) = True"
| "is_str v = False"

fun is_number :: "jsval \<Rightarrow> bool" where
  "is_number (JNum n) = True"
| "is_number v = False"

fun is_obj :: "jsval \<Rightarrow> bool" where
  "is_obj (JObj fs) = True"
| "is_obj v = False"

text \<open>Sequencing of computations that can throw: the first throw is the result.\<close>

definition bind_js :: "jsval + 'a \<Rightarrow> ('a \<Rightarrow> jsval + 'b) \<Rightarrow> jsval + 'b" where
  "bind_js m f = (case m of Inl e \<Rightarrow> Inl e | Inr v \<Rightarrow> f v)"

section \<open>apiService.js: ApiService.handleError\<close>

text \<open>
  \<^verbatim>\<open>
  handleError(error) {
    if (error.response) {
      return {
        message: error.response.data.message || error.response.data.error || 'Server error',
        status: error.response.status,
        data: error.response.data
      };
    } else if (error.request) {
      return { message: 'No response from server. Please check your connection.', status: 0 };
    } else {
      return { message: error.message || 'An unexpected error occurred', status: -1 };
    }
  }
  \<close>
  The object literal evaluates its properties in order; each property read can throw.
\<close>

definition handleError :: "jsval \<Rightarrow> jsval + jsval" where
  "handleError error =
     bind_js (get error ''response'') (\<lambda>response.
       if truthy response then
         bind_js (get response ''data'') (\<lambda>d.
         bind_js (get d ''message'') (\<lambda>m1.
         bind_js (if truthy m1 then Inr m1
                  else bind_js (get d ''error'') (\<lambda>m2. Inr (js_or m2 (JStr ''Server error'')))) (\<lambda>m.
         bind_js (get response ''status'') (\<lambda>s.
         bind_js (get response ''data'') (\<lambda>d'.
           Inr (JObj [(''message'', m), (''status'', s), (''data'', d')]))))))
       else
         bind_js (get error ''request'') (\<lambda>request.
           if truthy request then
             Inr (JObj [(''message'', JStr ''No response from server. Please check your connection.''),
                        (''status'', JNum 0)])
           else
             bind_js (get error ''message'') (\<lambda>m.
               Inr (JObj [(''message'', js_or m (JStr ''An unexpected error occurred'')),
                          (''status'', JNum (- 1))]))))"

text \<open>
  An axios error: an \<open>Error\<close> object (its \<open>message\<close> a string) that carries a
  \<open>response\<close> when the server answered (an object whose \<open>status\<close> is the HTTP status
  code and whose \<open>data\<close> is the parsed body, any value at all) and otherwise no
  \<open>response\<close>; \<open>request\<close> is the request object when one was sent.
\<close>

definition axios_response :: "jsval \<Rightarrow> bool" where
  "axios_response r = (is_obj r \<and> is_number (field r ''status''))"

definition axios_error :: "jsval \<Rightarrow> bool" where
  "axios_error e =
     (is_obj e \<and> is_str (field e ''message'') \<and>
      (field e ''response'' = JUndefined \<or> axios_response (field e ''response'')) \<and>
      (field e ''request'' = JUndefined \<or> is_obj (field e ''request'')))"

text \<open>The three cases the handler tells apart.\<close>

definition response_received :: "jsval \<Rightarrow> bool" where
  "response_received e = truthy (field e ''response'')"

definition no_response :: "jsval \<Rightarrow> bool" where
  "no_response e = (\<not> truthy (field e ''response'') \<and> truthy (field e ''request''))"

definition setup_error :: "jsval \<Rightarrow> bool" where
  "setup_error e = (\<not> truthy (field e ''response'') \<and> \<not> truthy (field e ''request''))"

definition body :: "jsval \<Rightarrow> jsval" where
  "body e = field (field e ''response'') ''data''"

text \<open>A value that \<open>||\<close> passes on as a string or skips: a string, or a falsy value.\<close>

definition str_or_falsy :: "jsval \<Rightarrow> bool" where
  "str_or_falsy v = (is_str v \<or> \<not> truthy v)"

text \<open>
  The axios error of an answer with HTTP status 500 and parsed body \<open>d\<close>, as axios
  builds it (\<open>Request failed with status code 500\<close>).
\<close>

definition error_500 :: "jsval \<Rightarrow> jsval" where
  "error_500 d = JObj [(''message'', JStr ''Request failed with status code 500''),
                       (''request'', JObj []),
                       (''response'', JObj [(''status'', JNum 500), (''data'', d)])]"

section \<open>apiService.js: the requests\<close>

text \<open>
  A \<open>File\<close> of the browser, by what the client reads of it: its name, its MIME type and
  its size in bytes.
\<close>

record image_file =
  file_name :: string
  file_type :: string
  file_size :: nat

text \<open>
  A request of the axios instance \<open>apiClient\<close>: the HTTP verb, the path below the base
  URL (\<open>REACT_APP_API_URL\<close>, or \<open>http://localhost:5000/api\<close>) and the entries of the
  multipart form, in the order they were appended.
\<close>

datatype part = FilePart image_file | TextPart string

record request =
  verb :: string
  url :: string
  form :: "(string \<times> part) list"

text \<open>
  The network and the server are a parameter: \<open>net req\<close> is how axios settles the
  request, \<open>Inr\<close> the response object it resolves with and \<open>Inl\<close> the error it rejects
  with. Each method of \<open>ApiService\<close> issues its request, returns \<open>response.data\<close> and,
  on any throw of its \<open>try\<close> block, throws what \<open>handleError\<close> makes of the error:
  \<^verbatim>\<open>
  async identifyMaterials(imageFile) {
    try {
      const formData = new FormData();
      formData.append('image', imageFile);
      const response = await apiClient.post('/identify-materials', formData);
      return response.data;
    } catch (error) {
      throw this.handleError(error);
    }
  }
  \<close>
  A method's value is the list of requests it sent and its outcome.
\<close>

type_synonym net = "request \<Rightarrow> jsval + jsval"

definition post :: "net \<Rightarrow> string \<Rightarrow> (string \<times> part) list \<Rightarrow> request list \<times> (jsval + jsval)" where
  "post net path formData =
     (let req = \<lparr>verb = ''POST'', url = path, form = formData\<rparr> in ([req], net req))"

text \<open>\<open>throw this.handleError(error)\<close>: the thrown value is the handler's result, or
  what the handler itself threw.\<close>

definition rethrow :: "jsval \<Rightarrow> jsval + jsval" where
  "rethrow error = (case handleError error of Inl e \<Rightarrow> Inl e | Inr r \<Rightarrow> Inl r)"

definition try_catch :: "jsval + 'a \<Rightarrow> (jsval \<Rightarrow> jsval + 'a) \<Rightarrow> jsval + 'a" where
  "try_catch m h = (case m of Inl e \<Rightarrow> h e | Inr v \<Rightarrow> Inr v)"

definition analyzeStructure :: "net \<Rightarrow> image_file \<Rightarrow> string option \<Rightarrow> request list \<times> (jsval + jsval)" where
  "analyzeStructure net imageFile analysisType =
     (let formData = [(''image'', FilePart imageFile),
                      (''analysis_type'',
                         TextPart (case analysisType of None \<Rightarrow> ''comprehensive'' | Some t \<Rightarrow> t))];
          (sent, settled) = post net ''/analyze'' formData
      in (sent, try_catch (bind_js settled (\<lambda>response. get response ''data'')) rethrow))"

definition identifyMaterials :: "net \<Rightarrow> image_file \<Rightarrow> request list \<times> (jsval + jsval)" where
  "identifyMaterials net imageFile =
     (let formData = [(''image'', FilePart imageFile)];
          (sent, settled) = post net ''/identify-materials'' formData
      in (sent, try_catch (bind_js settled (\<lambda>response. get response ''data'')) rethrow))"

definition documentProgress :: "net \<Rightarrow> image_file \<Rightarrow> request list \<times> (jsval + jsval)" where
  "documentProgress net imageFile =
     (let formData = [(''image'', FilePart imageFile)];
          (sent, settled) = post net ''/document-progress'' formData
      in (sent, try_catch (bind_js settled (\<lambda>response. get response ''data'')) rethrow))"

definition structuralAnalysis :: "net \<Rightarrow> image_file \<Rightarrow> request list \<times> (jsval + jsval)" where
  "structuralAnalysis net imageFile =
     (let formData = [(''image'', FilePart imageFile)];
          (sent, settled) = post net ''/structural-analysis'' formData
      in (sent, try_catch (bind_js settled (\<lambda>response. get response ''data'')) rethrow))"

section \<open>ImageUpload: the dropzone\<close>

text \<open>
  \<^verbatim>\<open>
  const onDrop = useCallback((acceptedFiles) => {
      if (acceptedFiles && acceptedFiles.length > 0) {
        const file = acceptedFiles[0];
        onImageSelect(file);
        ...                       // preview through a FileReader
      }
    }, [onImageSelect]);

  const { getRootProps, getInputProps, isDragActive } = useDropzone({
    onDrop,
    accept: { 'image/*': ['.png', '.jpg', '.jpeg', '.bmp', '.tiff'] },
    maxFiles: 1,
    maxSize: 16 * 1024 * 1024, // 16MB
  });
  \<close>
  The component configures \<open>useDropzone\<close> of react-dropzone (the project summary
  lists React Dropzone 14.2.3) and receives the accepted files in \<open>onDrop\<close>. The
  options it sets:
\<close>

record dropzone_options =
  accept :: "(string \<times> string list) list"
  maxFiles :: nat
  maxSize :: nat

definition upload_options :: dropzone_options where
  "upload_options =
     \<lparr>accept = [(''image/*'', [''.png'', ''.jpg'', ''.jpeg'', ''.bmp'', ''.tiff''])],
      maxFiles = 1,
      maxSize = 16 * 1024 * 1024\<rparr>"

text \<open>
  The filter is the library's, not this repository's. It is modelled after
  react-dropzone 14 and its helper attr-accept, for the options left at their defaults
  (\<open>multiple\<close> true, \<open>minSize\<close> 0, no \<open>validator\<close>):
  \<^item> a file that comes without a MIME type but with an extension in its name gets the
    type that the library's table of common MIME types (\<open>COMMON_MIME_TYPES\<close> of
    file-selector, a parameter here) has for the extension, if it has one;
  \<^item> the \<open>accept\<close> object is flattened into the entries of an accept attribute, each
    MIME type followed by its extensions (here
    \<open>image/*,.png,.jpg,.jpeg,.bmp,.tiff\<close>);
  \<^item> a file passes when \<^emph>\<open>some\<close> entry matches it: an entry that starts with a dot
    matches a file name that ends with it, an entry that ends in \<open>/*\<close> matches a MIME type
    with the same part before the slash, any other entry matches the equal MIME type
    (all compared in lower case); the MIME type \<open>application/x-moz-file\<close> always passes;
  \<^item> a file passes the size check when its size is at most \<open>maxSize\<close>;
  \<^item> when more files pass than \<open>maxFiles\<close> allows, all of them are rejected;
  \<^item> \<open>onDrop\<close> is called with the files that remain.
  Letter case is modelled for ASCII letters.
\<close>

definition lower_char :: "char \<Rightarrow> char" where
  "lower_char c =
     (case map_of (zip ''ABCDEFGHIJKLMNOPQRSTUVWXYZ'' ''abcdefghijklmnopqrstuvwxyz'') c of
        None \<Rightarrow> c | Some d \<Rightarrow> d)"

definition toLowerCase :: "string \<Rightarrow> string" where
  "toLowerCase s = map lower_char s"

definition endsWith :: "string \<Rightarrow> string \<Rightarrow> bool" where
  "endsWith s t = (take (length t) (rev s) = rev t)"

definition extension :: "string \<Rightarrow> string" where
  "extension name = rev (takeWhile (\<lambda>c. c \<noteq> CHR ''.'') (rev name))"

definition withMimeType :: "(string \<Rightarrow> string option) \<Rightarrow> image_file \<Rightarrow> image_file" where
  "withMimeType mime_types f =
     (if CHR ''.'' \<in> set (file_name f) \<and> file_type f = []
      then (case mime_types (toLowerCase (extension (file_name f))) of
              None \<Rightarrow> f
            | Some t \<Rightarrow> if t = [] then f else f\<lparr>file_type := t\<rparr>)
      else f)"

definition acceptPropAsAcceptAttr :: "(string \<times> string list) list \<Rightarrow> string list" where
  "acceptPropAsAcceptAttr acc = concat (map (\<lambda>(mimeType, ext). mimeType # ext) acc)"

definition baseMimeType :: "string \<Rightarrow> string" where
  "baseMimeType t = takeWhile (\<lambda>c. c \<noteq> CHR ''/'') t"

definition entry_matches :: "image_file \<Rightarrow> string \<Rightarrow> bool" where
  "entry_matches f entry =
     (let validType = toLowerCase entry;
          mimeType = toLowerCase (file_type f)
      in if take 1 validType = ''.'' then endsWith (toLowerCase (file_name f)) validType
         else if endsWith validType ''/*'' then baseMimeType mimeType = baseMimeType validType
         else mimeType = validType)"

definition accepts :: "image_file \<Rightarrow> string list \<Rightarrow> bool" where
  "accepts f acceptedFiles = list_ex (entry_matches f) acceptedFiles"

definition fileAccepted :: "image_file \<Rightarrow> string list \<Rightarrow> bool" where
  "fileAccepted f acceptAttr = (file_type f = ''application/x-moz-file'' \<or> accepts f acceptAttr)"

definition fileMatchSize :: "image_file \<Rightarrow> nat \<Rightarrow> bool" where
  "fileMatchSize f limit = (file_size f \<le> limit)"

definition dropzone_accepted :: "dropzone_options \<Rightarrow> image_file list \<Rightarrow> image_file list" where
  "dropzone_accepted opts files =
     (let acceptAttr = acceptPropAsAcceptAttr (accept opts);
          acceptedFiles = filter (\<lambda>f. fileAccepted f acceptAttr \<and> fileMatchSize f (maxSize opts)) files
      in if 1 \<le> maxFiles opts \<and> maxFiles opts < length acceptedFiles then [] else acceptedFiles)"

text \<open>
  The component's own part: \<open>onDrop\<close> hands the first accepted file, if there is one,
  to \<open>onImageSelect\<close> (\<open>None\<close>: the callback is not called). A drop event, or a choice
  in the file dialog, with the files \<open>files\<close> is \<open>drop_event mime_types files\<close>.
\<close>

definition onDrop :: "image_file list \<Rightarrow> image_file option" where
  "onDrop acceptedFiles = (case acceptedFiles of [] \<Rightarrow> None | f # rest \<Rightarrow> Some f)"

definition drop_event :: "(string \<Rightarrow> string option) \<Rightarrow> image_file list \<Rightarrow> image_file option" where
  "drop_event mime_types files =
     onDrop (dropzone_accepted upload_options (map (withMimeType mime_types) files))"

text \<open>The formats the component announces (\<open>Supported formats: PNG, JPG, JPEG, BMP,
  TIFF (Max 16MB)\<close>): a file name that ends in one of the five extensions.\<close>

definition listed_extension :: "image_file \<Rightarrow> bool" where
  "listed_extension f =
     list_ex (endsWith (toLowerCase (file_name f))) [''.png'', ''.jpg'', ''.jpeg'', ''.bmp'', ''.tiff'']"

definition image_mime :: "image_file \<Rightarrow> bool" where
  "image_mime f = (baseMimeType (toLowerCase (file_type f)) = ''image'')"

section \<open>ResultsDisplay\<close>

text \<open>
  The component is a function from its \<open>results\<close> prop to a React element tree, or it
  throws while building the tree. The tree is modelled with its structure and every
  value it shows; styling props (\<open>sx\<close>, \<open>variant\<close>, \<open>spacing\<close>, icons, keys) are left
  out. A value placed in the tree as a child, or as a prop that the component library
  shows as a child (\<open>{material.quantity}\<close>, \<open>label={component.condition}\<close>), is kept
  as the value it is (\<open>Val\<close>); \<open>Fixed x d\<close> is the text of \<open>x.toFixed(d)\<close> (\<open>None\<close>
  for NaN), and \<open>Cat\<close> is the text a template literal joins from its pieces.
\<close>

datatype node =
    Nothing
  | Str string
  | Val jsval
  | Fixed "rat option" nat
  | Cat "node list"
  | El string "(string \<times> node) list" "node list"

text \<open>
  Conversions. \<open>ToString\<close> and \<open>ToNumber\<close> follow the language definition on parsed
  JSON. Two steps are the engine's and never throw; they are parameters: the text of a
  number (\<open>number_text\<close>) and the number a string denotes (\<open>string_number\<close>, \<open>None\<close>
  for NaN). An object is converted through its \<open>toString\<close>: the inherited one gives
  \<open>[object Object]\<close>, while an own property of that name, which in parsed JSON is never
  callable, makes the conversion throw a \<open>TypeError\<close>. An array is converted by joining
  the conversions of its elements with commas, \<open>null\<close> and \<open>undefined\<close> giving the
  empty text. Numbers are rationals where the engine has doubles.
\<close>

record engine =
  number_text :: "rat \<Rightarrow> string"
  string_number :: "string \<Rightarrow> rat option"

fun to_string :: "engine \<Rightarrow> jsval \<Rightarrow> jsval + string"
  and join :: "engine \<Rightarrow> jsval list \<Rightarrow> jsval + string" where
  "to_string e JUndefined = Inr ''undefined''"
| "to_string e JNull = Inr ''null''"
| "to_string e (JBool b) = Inr (if b then ''true'' else ''false'')"
| "to_string e (JNum n) = Inr (number_text e n)"
| "to_string e (JStr s) = Inr s"
| "to_string e (JArr xs) = join e xs"
| "to_string e (JObj fs) =
     (if map_of fs ''toString'' = None then Inr ''[object Object]'' else Inl TypeError)"
| "join e [] = Inr []"
| "join e (x # xs) =
     (case (if nullish x then Inr [] else to_string e x) of
        Inl err \<Rightarrow> Inl err
      | Inr s \<Rightarrow>
          if xs = [] then Inr s
          else (case join e xs of Inl err \<Rightarrow> Inl err | Inr t \<Rightarrow> Inr (s @ '','' @ t)))"

definition to_number :: "engine \<Rightarrow> jsval \<Rightarrow> jsval + rat option" where
  "to_number e v =
     (case v of
        JUndefined \<Rightarrow> Inr None
      | JNull \<Rightarrow> Inr (Some 0)
      | JBool b \<Rightarrow> Inr (Some (if b then 1 else 0))
      | JNum n \<Rightarrow> Inr (Some n)
      | JStr s \<Rightarrow> Inr (string_number e s)
      | _ \<Rightarrow> bind_js (to_string e v) (\<lambda>s. Inr (string_number e s)))"

text \<open>\<open>v > r\<close> and \<open>v * r\<close> for a number \<open>r\<close>: \<open>v\<close> is converted to a number, which
  can throw; a comparison with NaN is false, a product with NaN is NaN.\<close>

definition js_gt :: "engine \<Rightarrow> jsval \<Rightarrow> rat \<Rightarrow> jsval + bool" where
  "js_gt e v r =
     bind_js (to_number e v) (\<lambda>x. Inr (case x of None \<Rightarrow> False | Some n \<Rightarrow> r < n))"

definition js_times :: "engine \<Rightarrow> jsval \<Rightarrow> rat \<Rightarrow> jsval + rat option" where
  "js_times e v r =
     bind_js (to_number e v) (\<lambda>x. Inr (case x of None \<Rightarrow> None | Some n \<Rightarrow> Some (n * r)))"

text \<open>The decimal digits of a natural number: the text of an array index, and of
  \<open>index + 1\<close> in a template literal.\<close>

fun decimal :: "nat \<Rightarrow> string" where
  "decimal n =
     (if n < 10 then [''0123456789'' ! n]
      else decimal (n div 10) @ [''0123456789'' ! (n mod 10)])"

declare decimal.simps [simp del]

text \<open>The string methods the component calls (letter case for ASCII letters).\<close>

definition upper_char :: "char \<Rightarrow> char" where
  "upper_char c =
     (case map_of (zip ''abcdefghijklmnopqrstuvwxyz'' ''ABCDEFGHIJKLMNOPQRSTUVWXYZ'') c of
        None \<Rightarrow> c | Some d \<Rightarrow> d)"

definition toUpperCase :: "string \<Rightarrow> string" where
  "toUpperCase s = map upper_char s"

text \<open>\<open>s.charAt(0).toUpperCase() + s.slice(1)\<close>\<close>

definition capitalize :: "string \<Rightarrow> string" where
  "capitalize s = toUpperCase (take 1 s) @ drop 1 s"

text \<open>\<open>s.replace('_', ' ')\<close>: the first underscore only.\<close>

fun replace_underscore :: "string \<Rightarrow> string" where
  "replace_underscore [] = []"
| "replace_underscore (c # cs) = (if c = CHR ''_'' then CHR '' '' # cs else c # replace_underscore cs)"

definition includes_str :: "string \<Rightarrow> string \<Rightarrow> bool" where
  "includes_str s t = list_ex (\<lambda>i. take (length t) (drop i s) = t) [0..<Suc (length s)]"

text \<open>
  A method call on a value: a string method exists on strings only, \<open>toFixed\<close> on
  numbers only, \<open>map\<close> on arrays only; on anything else the call throws a
  \<open>TypeError\<close> (nothing to read from, or not a function).
\<close>

definition as_string :: "jsval \<Rightarrow> jsval + string" where
  "as_string v = (case v of JStr s \<Rightarrow> Inr s | _ \<Rightarrow> Inl TypeError)"

definition toFixed :: "jsval \<Rightarrow> nat \<Rightarrow> jsval + node" where
  "toFixed v d = (case v of JNum n \<Rightarrow> Inr (Fixed (Some n) d) | _ \<Rightarrow> Inl TypeError)"

fun mapM_js :: "('a \<Rightarrow> jsval + 'b) \<Rightarrow> 'a list \<Rightarrow> jsval + 'b list" where
  "mapM_js f [] = Inr []"
| "mapM_js f (x # xs) =
     (case f x of Inl e \<Rightarrow> Inl e
      | Inr y \<Rightarrow> (case mapM_js f xs of Inl e \<Rightarrow> Inl e | Inr ys \<Rightarrow> Inr (y # ys)))"

definition js_map :: "jsval \<Rightarrow> (jsval \<Rightarrow> nat \<Rightarrow> jsval + node) \<Rightarrow> jsval + node list" where
  "js_map v f =
     (case v of
        JArr xs \<Rightarrow> mapM_js (\<lambda>(x, i). f x i) (zip xs [0..<length xs])
      | _ \<Rightarrow> Inl TypeError)"

text \<open>
  \<open>Object.entries\<close> of a value that is not nullish. An object gives its own
  properties, each name once with the value that is read for it: first the names that are
  array indices (a canonical decimal numeral below \<open>2^32 - 1\<close>) in ascending order, then
  the other names in the order of the object. An array and a string give their elements
  under the decimal text of the index; a number or a boolean gives nothing.
\<close>

definition own_properties :: "(string \<times> jsval) list \<Rightarrow> (string \<times> jsval) list" where
  "own_properties fs =
     map (\<lambda>k. (k, field (JObj fs) k)) (rev (remdups (rev (map fst fs))))"

definition digit_value :: "char \<Rightarrow> nat option" where
  "digit_value c = map_of (zip ''0123456789'' [0, 1, 2, 3, 4, 5, 6, 7, 8, 9]) c"

definition array_index :: "string \<Rightarrow> nat option" where
  "array_index k =
     (if k = [] \<or> (take 1 k = ''0'' \<and> k \<noteq> ''0'') \<or> \<not> list_all (\<lambda>c. digit_value c \<noteq> None) k
      then None
      else let n = foldl (\<lambda>a c. 10 * a + the (digit_value c)) 0 k
           in if n < 2 ^ 32 - 1 then Some n else None)"

definition entries :: "jsval \<Rightarrow> (node \<times> jsval) list" where
  "entries v =
     (case v of
        JObj fs \<Rightarrow>
          (let ps = own_properties fs;
               indexed = filter (\<lambda>p. array_index (fst p) \<noteq> None) ps;
               named = filter (\<lambda>p. array_index (fst p) = None) ps
           in map (\<lambda>(k, x). (Str k, x))
                (sort_key (\<lambda>p. the (array_index (fst p))) indexed @ named))
      | JArr xs \<Rightarrow> map (\<lambda>(x, i). (Str (decimal i), x)) (zip xs [0..<length xs])
      | JStr s \<Rightarrow> map (\<lambda>(c, i). (Str (decimal i), JStr [c])) (zip s [0..<length s])
      | _ \<Rightarrow> [])"

text \<open>\<open>{v && (element)}\<close>: the element when \<open>v\<close> is truthy, the value \<open>v\<close> itself
  otherwise.\<close>

definition js_and :: "jsval \<Rightarrow> node \<Rightarrow> node" where
  "js_and v n = (if truthy v then n else Val v)"

text \<open>
  \<^verbatim>\<open>
  {results.materials.map((material, index) => (
     ... {material.name.charAt(0).toUpperCase() + material.name.slice(1)}
     <Chip label={`${(material.confidence * 100).toFixed(0)}%`}
           color={material.confidence > 0.8 ? 'success' : 'warning'} />
     ... Quantity: {material.quantity}   Location: {material.location}
     {material.texture && ( ... Texture: {material.texture.replace('_', ' ')} )}
  ))}
  \<close>
\<close>

definition render_material :: "engine \<Rightarrow> jsval \<Rightarrow> nat \<Rightarrow> jsval + node" where
  "render_material e material index =
     bind_js (get material ''name'') (\<lambda>name.
     bind_js (as_string name) (\<lambda>s.
     bind_js (js_times e (field material ''confidence'') 100) (\<lambda>percent.
     bind_js (js_gt e (field material ''confidence'') (8 / 10)) (\<lambda>high.
       let chip = El ''Chip''
                    [(''label'', Cat [Fixed percent 0, Str ''%'']),
                     (''color'', Str (if high then ''success'' else ''warning''))] [];
           texture = field material ''texture''
       in bind_js (if truthy texture
                   then bind_js (as_string texture) (\<lambda>t.
                          Inr (El ''Typography'' [] [Str ''Texture:'', Str (replace_underscore t)]))
                   else Inr (Val texture)) (\<lambda>texture_line.
            Inr (El ''Card'' []
                   [El ''Typography'' [] [Str (capitalize s)],
                    chip,
                    El ''Typography'' [] [Str ''Quantity:'', Val (field material ''quantity'')],
                    El ''Typography'' [] [Str ''Location:'', Val (field material ''location'')],
                    texture_line]))))))"

text \<open>
  \<^verbatim>\<open>
  const renderMaterials = () => {
    if (!results.materials || results.materials.length === 0) return null;
    return ( <Accordion defaultExpanded> ...
        Materials Identified ({results.materials.length}) ...
        {results.materials.map((material, index) => ( ... ))} ... );
  };
  \<close>
\<close>

definition renderMaterials :: "engine \<Rightarrow> jsval \<Rightarrow> jsval + node" where
  "renderMaterials e results =
     bind_js (get results ''materials'') (\<lambda>materials.
       if \<not> truthy materials then Inr Nothing
       else bind_js (get materials ''length'') (\<lambda>n.
         if n = JNum 0 then Inr Nothing
         else bind_js (js_map materials (render_material e)) (\<lambda>cards.
           Inr (El ''Accordion'' []
                  [El ''AccordionSummary'' [] [Str ''Materials Identified ('', Val n, Str '')''],
                   El ''AccordionDetails'' [] cards]))))"

text \<open>
  \<^verbatim>\<open>
  {results.structural_components.map((component, index) => (
     ... {component.component_type.charAt(0).toUpperCase() + component.component_type.slice(1)}
     <Chip label={component.condition}
           color={component.condition.toLowerCase().includes('excellent') ? 'success'
                  : component.condition.toLowerCase().includes('good') ? 'primary' : 'warning'} />
     ... Material: {component.material} Location: {component.location}
         Method: {component.construction_method}
     {Object.entries(component.dimensions || {}).map(([key, value]) => ( ... {key}: {value}m ))}
     {component.notable_features && component.notable_features.length > 0 && (
        ... {component.notable_features.map((feature, idx) => (<Chip label={feature} />))} )}
  ))}
  \<close>
\<close>

definition render_feature :: "jsval \<Rightarrow> nat \<Rightarrow> jsval + node" where
  "render_feature feature idx = Inr (El ''Chip'' [(''label'', Val feature)] [])"

definition render_features :: "engine \<Rightarrow> jsval \<Rightarrow> jsval + node" where
  "render_features e features =
     (if \<not> truthy features then Inr (Val features)
      else bind_js (js_gt e (field features ''length'') 0) (\<lambda>some.
        if \<not> some then Inr (Val (JBool False))
        else bind_js (js_map features render_feature) (\<lambda>chips.
          Inr (El ''Box'' [] (Str ''Notable Features:'' # chips)))))"

definition render_component :: "engine \<Rightarrow> jsval \<Rightarrow> nat \<Rightarrow> jsval + node" where
  "render_component e component index =
     bind_js (get component ''component_type'') (\<lambda>component_type.
     bind_js (as_string component_type) (\<lambda>s.
     bind_js (as_string (field component ''condition'')) (\<lambda>condition.
       let chip = El ''Chip''
                    [(''label'', Val (field component ''condition'')),
                     (''color'', Str (if includes_str (toLowerCase condition) ''excellent'' then ''success''
                                      else if includes_str (toLowerCase condition) ''good'' then ''primary''
                                      else ''warning''))] [];
           dimensions = map (\<lambda>(key, v). El ''Typography'' [] [key, Str '': '', Val v, Str ''m''])
                            (entries (js_or (field component ''dimensions'') (JObj [])))
       in bind_js (render_features e (field component ''notable_features'')) (\<lambda>feature_box.
            Inr (El ''Card'' []
                   [El ''Typography'' [] [Str (capitalize s)],
                    chip,
                    El ''Typography'' [] [Str ''Material:'', Val (field component ''material'')],
                    El ''Typography'' [] [Str ''Location:'', Val (field component ''location'')],
                    El ''Typography'' [] [Str ''Method:'', Val (field component ''construction_method'')],
                    El ''Grid'' [] (Str ''Dimensions:'' # dimensions),
                    feature_box])))))"

definition renderStructuralComponents :: "engine \<Rightarrow> jsval \<Rightarrow> jsval + node" where
  "renderStructuralComponents e results =
     bind_js (get results ''structural_components'') (\<lambda>components.
       if \<not> truthy components then Inr Nothing
       else bind_js (get components ''length'') (\<lambda>n.
         if n = JNum 0 then Inr Nothing
         else bind_js (js_map components (render_component e)) (\<lambda>cards.
           Inr (El ''Accordion'' []
                  [El ''AccordionSummary'' [] [Str ''Structural Components ('', Val n, Str '')''],
                   El ''AccordionDetails'' [] cards]))))"

text \<open>
  \<^verbatim>\<open>
  const renderProjectProgress = () => {
    if (!results.project_progress) return null;
    const progress = results.project_progress;
    return ( <Accordion defaultExpanded> ... Project Progress ...
        Completion  {progress.completion_percentage.toFixed(1)}%
        <LinearProgress variant="determinate" value={progress.completion_percentage} />
        Current Phase <Chip label={progress.phase.replace('_', ' ').toUpperCase()} />
        {progress.timeline && ( ... {progress.timeline} )}
        Completed Elements {progress.completed_elements.map((element, idx) => ( ... ))}
        Planned Elements   {progress.planned_elements.map((element, idx) => ( ... ))} ... );
  };
  \<close>
\<close>

definition render_element :: "jsval \<Rightarrow> nat \<Rightarrow> jsval + node" where
  "render_element element idx = Inr (El ''ListItem'' [] [El ''ListItemText'' [(''primary'', Val element)] []])"

definition renderProjectProgress :: "jsval \<Rightarrow> jsval + node" where
  "renderProjectProgress results =
     bind_js (get results ''project_progress'') (\<lambda>progress.
       if \<not> truthy progress then Inr Nothing
       else
         bind_js (toFixed (field progress ''completion_percentage'') 1) (\<lambda>completion.
         bind_js (as_string (field progress ''phase'')) (\<lambda>phase.
         bind_js (js_map (field progress ''completed_elements'') render_element) (\<lambda>completed.
         bind_js (js_map (field progress ''planned_elements'') render_element) (\<lambda>planned.
           Inr (El ''Accordion'' []
                  [El ''AccordionSummary'' [] [Str ''Project Progress''],
                   El ''AccordionDetails'' []
                     [El ''Typography'' [] [Str ''Completion''],
                      El ''Typography'' [] [completion, Str ''%''],
                      El ''LinearProgress'' [(''value'', Val (field progress ''completion_percentage''))] [],
                      El ''Paper'' []
                        [Str ''Current Phase'',
                         El ''Chip'' [(''label'', Str (toUpperCase (replace_underscore phase)))] [],
                         js_and (field progress ''timeline'')
                           (El ''Typography'' [] [Val (field progress ''timeline'')])],
                      El ''Paper'' [] [Str ''Completed Elements'', El ''List'' [] completed],
                      El ''Paper'' [] [Str ''Planned Elements'', El ''List'' [] planned]]]))))))"

text \<open>
  \<^verbatim>\<open>
  const renderRecommendations = () => {
    if (!results.recommendations || results.recommendations.length === 0) return null;
    return ( <Accordion> ... Recommendations ({results.recommendations.length}) ...
        {results.recommendations.map((recommendation, index) => (
           <ListItem> <ListItemText primary={`${index + 1}. ${recommendation}`} /> </ListItem> ))} );
  };
  \<close>
  The template literal converts \<open>recommendation\<close> to a string, which can throw.
\<close>

definition render_recommendation :: "engine \<Rightarrow> jsval \<Rightarrow> nat \<Rightarrow> jsval + node" where
  "render_recommendation e recommendation index =
     bind_js (to_string e recommendation) (\<lambda>s.
       Inr (El ''ListItem'' []
              [El ''ListItemText'' [(''primary'', Str (decimal (index + 1) @ ''. '' @ s))] []]))"

definition renderRecommendations :: "engine \<Rightarrow> jsval \<Rightarrow> jsval + node" where
  "renderRecommendations e results =
     bind_js (get results ''recommendations'') (\<lambda>recommendations.
       if \<not> truthy recommendations then Inr Nothing
       else bind_js (get recommendations ''length'') (\<lambda>n.
         if n = JNum 0 then Inr Nothing
         else bind_js (js_map recommendations (render_recommendation e)) (\<lambda>items.
           Inr (El ''Accordion'' []
                  [El ''AccordionSummary'' [] [Str ''Recommendations ('', Val n, Str '')''],
                   El ''AccordionDetails'' [] [El ''List'' [] items]]))))"

text \<open>
  \<^verbatim>\<open>
  const ResultsDisplay = ({ results }) => {
    if (!results) return null;
    ...
    return (
      <Box>
        <Paper> Analysis Complete
          {results.confidence_score > 0 && ( ... Overall Confidence:
             <Chip label={`${(results.confidence_score * 100).toFixed(0)}%`} /> )}
        </Paper>
        {results.summary && ( <Paper> Summary {results.summary} </Paper> )}
        <Box>
          {renderMaterials()} {renderStructuralComponents()}
          {renderProjectProgress()} {renderRecommendations()}
        </Box>
        {results.detailed_description && ( <Paper> Detailed Description ... </Paper> )}
      </Box> );
  };
  \<close>
\<close>

definition render_score :: "engine \<Rightarrow> jsval \<Rightarrow> jsval + node" where
  "render_score e score =
     bind_js (js_gt e score 0) (\<lambda>positive.
       if \<not> positive then Inr (Val (JBool False))
       else bind_js (js_times e score 100) (\<lambda>percent.
         Inr (El ''Box'' []
                [Str ''Overall Confidence:'',
                 El ''Chip'' [(''label'', Cat [Fixed percent 0, Str ''%''])] []])))"

definition ResultsDisplay :: "engine \<Rightarrow> jsval \<Rightarrow> jsval + node" where
  "ResultsDisplay e results =
     (if \<not> truthy results then Inr Nothing
      else
        bind_js (render_score e (field results ''confidence_score'')) (\<lambda>score.
          let header = El ''Paper'' [] [Str ''Analysis Complete'', score];
              summary = js_and (field results ''summary'')
                          (El ''Paper'' [] [Str ''Summary'', Val (field results ''summary'')])
          in bind_js (renderMaterials e results) (\<lambda>materials.
             bind_js (renderStructuralComponents e results) (\<lambda>components.
             bind_js (renderProjectProgress results) (\<lambda>progress.
             bind_js (renderRecommendations e results) (\<lambda>recommendations.
               Inr (El ''Box'' []
                      [header,
                       summary,
                       El ''Box'' [] [materials, components, progress, recommendations],
                       js_and (field results ''detailed_description'')
                         (El ''Paper'' [] [Str ''Detailed Description'',
                                           Val (field results ''detailed_description'')])])))))))"

text \<open>
  What React does with the tree. A value given as a child is rendered when it is a
  string or a number, renders nothing when it is a boolean, \<open>null\<close> or \<open>undefined\<close>,
  and is rendered element by element when it is an array; a plain object is refused
  (\<open>Objects are not valid as a React child\<close>), and the render fails. \<open>react_render\<close>
  is the outcome of rendering the component: what the component throws, React's refusal,
  or the tree.
\<close>

fun displayable :: "jsval \<Rightarrow> bool" where
  "displayable (JArr xs) = list_all displayable xs"
| "displayable (JObj fs) = False"
| "displayable v = True"

fun valid_tree :: "node \<Rightarrow> bool" where
  "valid_tree (Val v) = displayable v"
| "valid_tree (Cat ns) = list_all valid_tree ns"
| "valid_tree (El n ps cs) = (list_all valid_tree (map snd ps) \<and> list_all valid_tree cs)"
| "valid_tree n = True"

definition ReactChildError :: jsval where
  "ReactChildError =
     JObj [(''name'', JStr ''Error''),
           (''message'', JStr ''Objects are not valid as a React child'')]"

definition react_render :: "engine \<Rightarrow> jsval \<Rightarrow> jsval + node" where
  "react_render e results =
     bind_js (ResultsDisplay e results) (\<lambda>tree.
       if valid_tree tree then Inr tree else Inl ReactChildError)"

text \<open>
  A field of the results is \<^emph>\<open>absent\<close> when it is missing or otherwise falsy; a
  list-valued field is \<^emph>\<open>empty\<close> when its \<open>length\<close> is 0.
\<close>

definition absent :: "jsval \<Rightarrow> string \<Rightarrow> bool" where
  "absent results k = (\<not> truthy (field results k))"

definition empty_list :: "jsval \<Rightarrow> string \<Rightarrow> bool" where
  "empty_list results k = (field (field results k) ''length'' = JNum 0)"

text \<open>
  The shapes of the wire format the component relies on in a field that is present. The
  entries of the lists are objects with the string fields the cards capitalise or test;
  the progress object has its number, its phase and its two lists; and every value that
  is shown or converted is a \<^emph>\<open>primitive\<close> (a string, a number, a boolean, \<open>null\<close> or
  nothing), as the strings and numbers of the wire format are.
\<close>

fun is_arr :: "jsval \<Rightarrow> bool" where
  "is_arr (JArr xs) = True"
| "is_arr v = False"

fun elems :: "jsval \<Rightarrow> jsval list" where
  "elems (JArr xs) = xs"
| "elems v = []"

fun primitive :: "jsval \<Rightarrow> bool" where
  "primitive (JArr xs) = False"
| "primitive (JObj fs) = False"
| "primitive v = True"

definition wf_material :: "jsval \<Rightarrow> bool" where
  "wf_material m =
     (is_obj m \<and> is_str (field m ''name'') \<and> str_or_falsy (field m ''texture'') \<and>
      primitive (field m ''confidence'') \<and> primitive (field m ''quantity'') \<and>
      primitive (field m ''location''))"

definition wf_features :: "jsval \<Rightarrow> bool" where
  "wf_features f = (is_arr f \<and> list_all primitive (elems f) \<or> \<not> truthy f)"

definition wf_component :: "jsval \<Rightarrow> bool" where
  "wf_component c =
     (is_obj c \<and> is_str (field c ''component_type'') \<and> is_str (field c ''condition'') \<and>
      primitive (field c ''material'') \<and> primitive (field c ''location'') \<and>
      primitive (field c ''construction_method'') \<and>
      list_all (\<lambda>p. primitive (snd p)) (entries (js_or (field c ''dimensions'') (JObj []))) \<and>
      wf_features (field c ''notable_features''))"

definition wf_list :: "jsval \<Rightarrow> bool" where
  "wf_list v = (is_arr v \<and> list_all primitive (elems v))"

definition wf_progress :: "jsval \<Rightarrow> bool" where
  "wf_progress p =
     (is_number (field p ''completion_percentage'') \<and> is_str (field p ''phase'') \<and>
      primitive (field p ''timeline'') \<and>
      wf_list (field p ''completed_elements'') \<and> wf_list (field p ''planned_elements''))"

definition wf_results :: "jsval \<Rightarrow> bool" where
  "wf_results r =
     (primitive (field r ''confidence_score'') \<and> primitive (field r ''summary'') \<and>
      primitive (field r ''detailed_description'') \<and>
      (absent r ''materials'' \<or>
         is_arr (field r ''materials'') \<and> list_all wf_material (elems (field r ''materials''))) \<and>
      (absent r ''structural_components'' \<or>
         is_arr (field r ''structural_components'') \<and>
         list_all wf_component (elems (field r ''structural_components''))) \<and>
      (absent r ''project_progress'' \<or> wf_progress (field r ''project_progress'')) \<and>
      (absent r ''recommendations'' \<or> wf_list (field r ''recommendations'')))"

text \<open>A sample answer of \<open>/identify-materials\<close>: one material, no components, no
  progress, one recommendation.\<close>

definition sample_results :: jsval where
  "sample_results =
     JObj [(''success'', JBool True),
           (''materials'',
              JArr [JObj [(''name'', JStr ''concrete''), (''confidence'', JNum (87 / 100)),
                          (''quantity'', JStr ''45.2% of visible area''),
                          (''location'', JStr ''primary structural areas''),
                          (''texture'', JStr ''smooth'')]]),
           (''structural_components'', JArr []),
           (''summary'', JStr ''Material analysis summary''),
           (''recommendations'', JArr [JStr ''Verify the material grade on site'']),
           (''confidence_score'', JNum (82 / 100))]"

text \<open>A results value with a progress object that has no \<open>completion_percentage\<close>.\<close>

definition partial_progress :: jsval where
  "partial_progress = JObj [(''project_progress'', JObj [(''phase'', JStr ''foundation'')])]"

text \<open>
  An engine for the sample runs: it prints the integer part of a non-negative number in
  decimal and reads a string of decimal digits. It agrees with JavaScript on the natural
  numbers and on digit strings, which is all the sample runs convert.
\<close>

definition sample_engine :: engine where
  "sample_engine =
     \<lparr>number_text = (\<lambda>q. decimal (nat \<lfloor>q\<rfloor>)),
      string_number = (\<lambda>s. if list_all (\<lambda>c. digit_value c \<noteq> None) s
                             then Some (of_nat (foldl (\<lambda>a c. 10 * a + the (digit_value c)) 0 s))
                             else None)\<rparr>"

section \<open>App: handleAnalyze\<close>

text \<open>
  The state of the \<open>App\<close> component (its five \<open>useState\<close> cells), and the analysis
  types the selector offers (\<open>analysisTypes\<close> of \<open>AnalysisTypeSelector\<close>: id, name and
  description; the icon is left out).
\<close>

record app_state =
  selectedImage :: "image_file option"
  analysisType :: string
  loading :: bool
  results :: jsval
  error :: jsval

definition initial_state :: app_state where
  "initial_state = \<lparr>selectedImage = None, analysisType = ''comprehensive'', loading = False,
                     results = JNull, error = JNull\<rparr>"

definition analysisTypes :: "(string \<times> string \<times> string) list" where
  "analysisTypes =
     [(''material_identification'', ''Material Identification'',
         ''Identify construction materials like concrete, steel, and bricks''),
      (''project_progress'', ''Project Progress Documentation'',
         ''Document construction progress and completion phases''),
      (''structural_analysis'', ''Structural Analysis'',
         ''Analyze structural components like beams, columns, and trusses''),
      (''comprehensive'', ''Comprehensive Analysis'',
         ''Complete analysis including all features above'')]"

text \<open>
  \<^verbatim>\<open>
  const handleAnalyze = async () => {
    if (!selectedImage) { setError('Please select an image first'); return; }
    setLoading(true); setError(null); setResults(null);
    try {
      let response;
      switch (analysisType) {
        case 'material_identification':
          response = await apiService.identifyMaterials(selectedImage); break;
        case 'project_progress':
          response = await apiService.documentProgress(selectedImage); break;
        case 'structural_analysis':
          response = await apiService.structuralAnalysis(selectedImage); break;
        default:
          response = await apiService.analyzeStructure(selectedImage, analysisType);
      }
      if (response.success) { setResults(response.analysis || response); }
      else { setError(response.message || 'Analysis failed'); }
    } catch (err) {
      setError(err.message || 'An error occurred during analysis');
    } finally {
      setLoading(false);
    }
  };
  \<close>
  \<open>dispatch\<close> is the \<open>switch\<close>; \<open>on_response\<close> is the rest of the \<open>try\<close> block;
  \<open>settle\<close> adds \<open>catch\<close> and \<open>finally\<close> and yields the new state together with a
  value that escaped the handler, if any (a throw inside the \<open>catch\<close> block).
\<close>

definition dispatch :: "net \<Rightarrow> string \<Rightarrow> image_file \<Rightarrow> request list \<times> (jsval + jsval)" where
  "dispatch net t img =
     (if t = ''material_identification'' then identifyMaterials net img
      else if t = ''project_progress'' then documentProgress net img
      else if t = ''structural_analysis'' then structuralAnalysis net img
      else analyzeStructure net img (Some t))"

definition on_response :: "app_state \<Rightarrow> jsval \<Rightarrow> jsval + app_state" where
  "on_response st response =
     bind_js (get response ''success'') (\<lambda>success.
       if truthy success then
         bind_js (get response ''analysis'') (\<lambda>analysis.
           Inr (st\<lparr>results := js_or analysis response\<rparr>))
       else
         bind_js (get response ''message'') (\<lambda>m.
           Inr (st\<lparr>error := js_or m (JStr ''Analysis failed'')\<rparr>)))"

definition settle :: "app_state \<Rightarrow> jsval + jsval \<Rightarrow> app_state \<times> jsval option" where
  "settle st outcome =
     (case bind_js outcome (on_response st) of
        Inr st' \<Rightarrow> (st'\<lparr>loading := False\<rparr>, None)
      | Inl err \<Rightarrow>
          (case get err ''message'' of
             Inr m \<Rightarrow> (st\<lparr>error := js_or m (JStr ''An error occurred during analysis''),
                          loading := False\<rparr>, None)
           | Inl e \<Rightarrow> (st\<lparr>loading := False\<rparr>, Some e)))"

definition handleAnalyze :: "net \<Rightarrow> app_state \<Rightarrow> request list \<times> app_state \<times> jsval option" where
  "handleAnalyze net st =
     (case selectedImage st of
        None \<Rightarrow> ([], st\<lparr>error := JStr ''Please select an image first''\<rparr>, None)
      | Some img \<Rightarrow>
          (let st1 = st\<lparr>loading := True, error := JNull, results := JNull\<rparr>;
               (sent, outcome) = dispatch net (analysisType st) img
           in (sent, settle st1 outcome)))"

text \<open>
  What every method of \<open>ApiService\<close> does with the way its request settled: the
  response's \<open>data\<close>, or the throw of \<open>handleError\<close>'s result.
\<close>

definition unwrap :: "jsval + jsval \<Rightarrow> jsval + jsval" where
  "unwrap settled = try_catch (bind_js settled (\<lambda>response. get response ''data'')) rethrow"

text \<open>The request each endpoint of the client sends for an image.\<close>

definition image_request :: "string \<Rightarrow> image_file \<Rightarrow> request" where
  "image_request path img = \<lparr>verb = ''POST'', url = path, form = [(''image'', FilePart img)]\<rparr>"

definition analyze_request :: "string \<Rightarrow> image_file \<Rightarrow> request" where
  "analyze_request t img =
     \<lparr>verb = ''POST'', url = ''/analyze'',
      form = [(''image'', FilePart img), (''analysis_type'', TextPart t)]\<rparr>"

text \<open>The request the \<open>switch\<close> of \<open>handleAnalyze\<close> selects for an analysis type.\<close>

definition selected_request :: "string \<Rightarrow> image_file \<Rightarrow> request" where
  "selected_request t img =
     (if t = ''material_identification'' then image_request ''/identify-materials'' img
      else if t = ''project_progress'' then image_request ''/document-progress'' img
      else if t = ''structural_analysis'' then image_request ''/structural-analysis'' img
      else analyze_request t img)"

text \<open>
  A sample run: a JPEG selected in the initial state (type \<open>comprehensive\<close>), and a
  server that answers every request with status 200 and a successful, empty analysis.
\<close>

definition sample_image :: image_file where
  "sample_image = \<lparr>file_name = ''site.jpg'', file_type = ''image/jpeg'', file_size = 204800\<rparr>"

definition ok_net :: net where
  "ok_net req = Inr (JObj [(''status'', JNum 200),
                           (''data'', JObj [(''success'', JBool True), (''materials'', JArr [])])])"

section \<open>The analysis core: MaterialMatcher and ResultAssembler\<close>

text \<open>
  The front end above only shows what the analysis core computed. The core's
  MaterialMatcher and ResultAssembler are described by the specification (sections 3,
  4.2 and 4.6); the definitions of this section follow that description. Confidences and
  pixel-shares are rationals.
\<close>

text \<open>Modelled from the spec: a color cluster of the FeatureSet (section 3), an RGB
  centroid with its pixel-share.\<close>

record color_cluster =
  centroid :: "nat \<times> nat \<times> nat"
  pixel_share :: rat

text \<open>Modelled from the spec: the FeatureSet (section 3) that the FeatureExtractor
  hands to the MaterialMatcher: the color clusters, a texture descriptor and a geometric
  descriptor (line segments by orientation, length and position).\<close>

record feature_set =
  color_clusters :: "color_cluster list"
  texture_descriptor :: "rat list"
  geometric_descriptor :: "(rat \<times> rat \<times> rat) list"

text \<open>Modelled from the spec: a material definition of the KnowledgeBase (sections 3
  and 6): the material's name with its color ranges, texture signature and property
  table. The KnowledgeBase maps a name to its definition, so a knowledge base is a list of
  definitions with distinct names.\<close>

record material_definition =
  def_name :: string
  color_ranges :: "((nat \<times> nat \<times> nat) \<times> (nat \<times> nat \<times> nat)) list"
  texture_signature :: "rat list"
  property_table :: "(string \<times> string) list"

text \<open>Modelled from the spec: a Material of the result (section 3), by its name, its
  confidence, the pixel-share of the cluster it was matched to (the quantity) and its
  properties.\<close>

record material =
  m_name :: string
  m_confidence :: rat
  m_share :: rat
  m_properties :: "(string \<times> string) list"

text \<open>Modelled from the spec: the scores of section 4.2. The color score is \<open>1 -\<close>
  the normalized distance between the material's color ranges and the nearest cluster
  centroid, the texture score compares the texture signatures, and the matched cluster
  gives the pixel-share; the spec leaves the color space and the distance open, so the
  three are parameters of the matcher.\<close>

record scoring =
  color_score :: "feature_set \<Rightarrow> material_definition \<Rightarrow> rat"
  texture_score :: "feature_set \<Rightarrow> material_definition \<Rightarrow> rat"
  matched_share :: "feature_set \<Rightarrow> material_definition \<Rightarrow> rat"

text \<open>Modelled from the spec: the fixed weight of the color score in the weighted
  sum of section 4.2 (\<open>0.6\<close>).\<close>

definition color_weight :: rat where
  "color_weight = 6 / 10"

text \<open>Modelled from the spec: the fixed weight of the texture score in the weighted
  sum of section 4.2 (\<open>0.4\<close>).\<close>

definition texture_weight :: rat where
  "texture_weight = 4 / 10"

text \<open>Modelled from the spec: the default of the configurable acceptance threshold of
  section 4.2 (\<open>0.3\<close>).\<close>

definition default_threshold :: rat where
  "default_threshold = 3 / 10"

text \<open>Modelled from the spec: clipping to \<open>[0,1]\<close> (section 4.2, and the invariant of
  section 3).\<close>

definition clip01 :: "rat \<Rightarrow> rat" where
  "clip01 x = (if x < 0 then 0 else if 1 < x then 1 else x)"

text \<open>Modelled from the spec: the confidence of section 4.2, the weighted sum of the
  color score and the texture score, clipped to \<open>[0,1]\<close>.\<close>

definition match_confidence :: "scoring \<Rightarrow> feature_set \<Rightarrow> material_definition \<Rightarrow> rat" where
  "match_confidence sc fs d =
     clip01 (color_weight * color_score sc fs d + texture_weight * texture_score sc fs d)"

text \<open>Modelled from the spec: the Material the matcher creates for a definition
  (section 4.2): the definition's name and properties, the confidence, and the matched
  cluster's pixel-share.\<close>

definition match_material :: "scoring \<Rightarrow> feature_set \<Rightarrow> material_definition \<Rightarrow> material" where
  "match_material sc fs d =
     \<lparr>m_name = def_name d, m_confidence = match_confidence sc fs d,
      m_share = matched_share sc fs d, m_properties = property_table d\<rparr>"

text \<open>Modelled from the spec: the MaterialMatcher (section 4.2). For every material
  definition it computes the Material, and keeps it only if its confidence exceeds the
  acceptance threshold.\<close>

definition MaterialMatcher ::
  "scoring \<Rightarrow> rat \<Rightarrow> feature_set \<Rightarrow> material_definition list \<Rightarrow> material list" where
  "MaterialMatcher sc threshold fs kb =
     filter (\<lambda>m. threshold < m_confidence m) (map (match_material sc fs) kb)"

text \<open>Modelled from the spec: a StructuralComponent of the result (section 3), by its
  type, the name of its material, its confidence, and the pixel-share of the material
  cluster it was matched to by spatial overlap (section 4.3), which the ordering of
  section 3 uses to break ties.\<close>

record structural_component =
  c_type :: string
  c_material :: string
  c_confidence :: rat
  c_share :: rat

text \<open>Modelled from the spec: the order of the lists of a result (section 3, and the
  tie-break of section 4.2): by confidence, larger first; entries of equal confidence by
  matched pixel-share, larger first; entries equal in both by name, lexicographically.
  An entry is ordered by the triple of its confidence, pixel-share and name.\<close>

definition ranks_before :: "rat \<times> rat \<times> string \<Rightarrow> rat \<times> rat \<times> string \<Rightarrow> bool" where
  "ranks_before a b =
     (case a of (conf_a, share_a, name_a) \<Rightarrow>
      case b of (conf_b, share_b, name_b) \<Rightarrow>
        conf_b < conf_a \<or>
        conf_a = conf_b \<and> (share_b < share_a \<or> share_a = share_b \<and> name_a \<le> name_b))"

text \<open>Modelled from the spec: putting one entry into a list that is in the order of
  section 3, before the first entry it ranks before.\<close>

fun place :: "('a \<Rightarrow> rat \<times> rat \<times> string) \<Rightarrow> 'a \<Rightarrow> 'a list \<Rightarrow> 'a list" where
  "place key x [] = [x]"
| "place key x (y # ys) =
     (if ranks_before (key x) (key y) then x # y # ys else y # place key x ys)"

text \<open>Modelled from the spec: sorting a list into the order of section 3, by insertion
  (the spec asks for the order, not for an algorithm).\<close>

fun rank_by :: "('a \<Rightarrow> rat \<times> rat \<times> string) \<Rightarrow> 'a list \<Rightarrow> 'a list" where
  "rank_by key [] = []"
| "rank_by key (x # xs) = place key x (rank_by key xs)"

text \<open>Modelled from the spec: what a Material is ordered by (section 3): its
  confidence, its matched pixel-share and its name.\<close>

definition material_key :: "material \<Rightarrow> rat \<times> rat \<times> string" where
  "material_key m = (m_confidence m, m_share m, m_name m)"

text \<open>Modelled from the spec: what a StructuralComponent is ordered by (section 3):
  its confidence, its matched pixel-share and its type name.\<close>

definition component_key :: "structural_component \<Rightarrow> rat \<times> rat \<times> string" where
  "component_key c = (c_confidence c, c_share c, c_type c)"

text \<open>Modelled from the spec: the two lists of the AnalysisResult (section 3). The
  narrative, the progress and the overall score of the result are not modelled.\<close>

record analysis_result =
  materials :: "material list"
  structural_components :: "structural_component list"

text \<open>Modelled from the spec: the ResultAssembler (section 4.6), which composes the
  result from the outputs of the MaterialMatcher and of the StructuralComponentDetector,
  each list in the order of section 3.\<close>

definition ResultAssembler :: "material list \<Rightarrow> structural_component list \<Rightarrow> analysis_result" where
  "ResultAssembler ms cs =
     \<lparr>materials = rank_by material_key ms, structural_components = rank_by component_key cs\<rparr>"

text \<open>Sample inputs: a knowledge base of two materials, scores under which concrete
  matches well and steel does not, and three matched materials with a tie in
  confidence.\<close>

definition sample_kb :: "material_definition list" where
  "sample_kb =
     [\<lparr>def_name = ''concrete'', color_ranges = [((120, 120, 120), (200, 200, 200))],
       texture_signature = [1 / 10], property_table = [(''durability'', ''excellent'')]\<rparr>,
      \<lparr>def_name = ''steel'', color_ranges = [((60, 60, 70), (110, 110, 120))],
       texture_signature = [3 / 10], property_table = [(''tensile_strength'', ''high'')]\<rparr>]"

definition sample_scoring :: scoring where
  "sample_scoring =
     \<lparr>color_score = (\<lambda>fs d. if def_name d = ''concrete'' then 9 / 10 else 1 / 10),
      texture_score = (\<lambda>fs d. 1 / 2),
      matched_share = (\<lambda>fs d. if def_name d = ''concrete'' then 45 / 100 else 5 / 100)\<rparr>"

definition sample_features :: feature_set where
  "sample_features =
     \<lparr>color_clusters = [\<lparr>centroid = (150, 150, 145), pixel_share = 45 / 100\<rparr>],
      texture_descriptor = [1 / 10], geometric_descriptor = []\<rparr>"

definition sample_materials :: "material list" where
  "sample_materials =
     [\<lparr>m_name = ''steel'', m_confidence = 1 / 2, m_share = 2 / 10, m_properties = []\<rparr>,
      \<lparr>m_name = ''concrete'', m_confidence = 8 / 10, m_share = 4 / 10, m_properties = []\<rparr>,
      \<lparr>m_name = ''brick'', m_confidence = 1 / 2, m_share = 3 / 10, m_properties = []\<rparr>]"

section \<open>Properties of handleError\<close>

lemma get_object [simp]: "get (JObj fs) k = Inr (field (JObj fs) k)"
  by (simp add: get_def)

lemma get_not_nullish: "\<not> nullish v \<Longrightarrow> get v k = Inr (field v k)"
  by (simp add: get_def)

lemma is_obj_not_nullish: "is_obj v \<Longrightarrow> \<not> nullish v"
  by (cases v) simp_all

lemma truthy_not_nullish: "truthy v \<Longrightarrow> \<not> nullish v"
  by (cases v) simp_all

lemma bind_js_Inr [simp]: "bind_js (Inr v) f = f v"
  by (simp add: bind_js_def)

lemma bind_js_Inl [simp]: "bind_js (Inl e) f = Inl e"
  by (simp add: bind_js_def)

lemma js_or_str:
  "str_or_falsy a \<Longrightarrow> is_str b \<Longrightarrow> is_str (js_or a b)"
  by (auto simp: js_or_def str_or_falsy_def)

lemma handleError_response:
  assumes "truthy (field e ''response'')" "\<not> nullish e" "\<not> nullish (body e)"
  shows "handleError e =
     Inr (JObj [(''message'', js_or (field (body e) ''message'')
                                 (js_or (field (body e) ''error'') (JStr ''Server error''))),
                (''status'', field (field e ''response'') ''status''),
                (''data'', body e)])"
  using assms
  by (simp add: handleError_def get_not_nullish truthy_not_nullish body_def js_or_def)

lemma handleError_no_response:
  assumes "\<not> truthy (field e ''response'')" "truthy (field e ''request'')" "\<not> nullish e"
  shows "handleError e =
     Inr (JObj [(''message'', JStr ''No response from server. Please check your connection.''),
                (''status'', JNum 0)])"
  using assms
  by (simp add: handleError_def get_not_nullish)

lemma handleError_setup:
  assumes "\<not> truthy (field e ''response'')" "\<not> truthy (field e ''request'')" "\<not> nullish e"
  shows "handleError e =
     Inr (JObj [(''message'', js_or (field e ''message'') (JStr ''An unexpected error occurred'')),
                (''status'', JNum (- 1))])"
  using assms
  by (simp add: handleError_def get_not_nullish)

text \<open>
  The missed case: a response whose body is \<open>null\<close> or \<open>undefined\<close> (a JSON body
  \<open>null\<close>) makes \<open>error.response.data.message\<close> throw inside the handler.
\<close>

lemma handleError_null_body:
  assumes "truthy (field e ''response'')" "\<not> nullish e" "nullish (body e)"
  shows "handleError e = Inl TypeError"
  using assms
  by (simp add: handleError_def get_not_nullish truthy_not_nullish body_def get_def)

text \<open>
  Claim C9, as amended. For every axios error whose response body, when a response was
  received, is neither \<open>null\<close> nor \<open>undefined\<close>, \<open>handleError\<close> returns (does not
  throw) an object with a \<open>message\<close> and a numeric \<open>status\<close>: the status is the
  server's HTTP status code when a response was received, \<open>0\<close> when the request got no
  response, and \<open>-1\<close> for any other request-setup error. With a response, the message is
  the first truthy value among the body's \<open>message\<close>, its \<open>error\<close> and the text
  \<open>Server error\<close>, so it is a string whenever those two fields hold strings or falsy
  values; in the other two cases it is always a string.
\<close>

theorem handleError_returns:
  assumes ax: "axios_error e"
    and bd: "response_received e \<longrightarrow> \<not> nullish (body e)"
  shows "\<exists>r. handleError e = Inr r \<and> is_obj r \<and> is_number (field r ''status'') \<and>
           (response_received e \<longrightarrow>
              field r ''status'' = field (field e ''response'') ''status'' \<and>
              field r ''message'' = js_or (field (body e) ''message'')
                                      (js_or (field (body e) ''error'') (JStr ''Server error''))) \<and>
           (no_response e \<longrightarrow> field r ''status'' = JNum 0 \<and> is_str (field r ''message'')) \<and>
           (setup_error e \<longrightarrow> field r ''status'' = JNum (- 1) \<and> is_str (field r ''message'')) \<and>
           ((response_received e \<longrightarrow>
               str_or_falsy (field (body e) ''message'') \<and> str_or_falsy (field (body e) ''error''))
             \<longrightarrow> is_str (field r ''message''))"
proof -
  from ax have nn: "\<not> nullish e"
    by (simp add: axios_error_def is_obj_not_nullish)
  from ax have msg: "is_str (field e ''message'')"
    by (simp add: axios_error_def)
  consider (resp) "response_received e" | (noresp) "no_response e" | (other) "setup_error e"
    by (auto simp: response_received_def no_response_def setup_error_def)
  then show ?thesis
  proof cases
    case resp
    then have t: "truthy (field e ''response'')"
      by (simp add: response_received_def)
    with ax have "axios_response (field e ''response'')"
      by (auto simp: axios_error_def)
    then have num: "is_number (field (field e ''response'') ''status'')"
      by (simp add: axios_response_def)
    from resp bd have "\<not> nullish (body e)" by simp
    from handleError_response [OF t nn this] num resp show ?thesis
      by (auto simp: no_response_def setup_error_def response_received_def intro!: js_or_str)
  next
    case noresp
    then have a: "\<not> truthy (field e ''response'')" and b: "truthy (field e ''request'')"
      by (simp_all add: no_response_def)
    from handleError_no_response [OF a b nn] noresp show ?thesis
      by (auto simp: no_response_def setup_error_def response_received_def)
  next
    case other
    then have a: "\<not> truthy (field e ''response'')" and b: "\<not> truthy (field e ''request'')"
      by (simp_all add: setup_error_def)
    from msg have "is_str (js_or (field e ''message'') (JStr ''An unexpected error occurred''))"
      by (simp add: js_or_str str_or_falsy_def)
    with handleError_setup [OF a b nn] other show ?thesis
      by (auto simp: no_response_def setup_error_def response_received_def)
  qed
qed

text \<open>
  The theorem at the axios error of a 500 answer whose body is
  \<open>{"error": "Analysis failed"}\<close> (the server's documented error body): both
  hypotheses hold, and the handler returns status 500 with the body's \<open>error\<close> text as
  the message.
\<close>

theorem handleError_returns_witness:
  "axios_error (error_500 (JObj [(''error'', JStr ''Analysis failed'')])) \<and>
   \<not> nullish (body (error_500 (JObj [(''error'', JStr ''Analysis failed'')]))) \<and>
   (\<exists>r. handleError (error_500 (JObj [(''error'', JStr ''Analysis failed'')])) = Inr r \<and>
        field r ''status'' = JNum 500 \<and> field r ''message'' = JStr ''Analysis failed'')"
proof -
  let ?e = "error_500 (JObj [(''error'', JStr ''Analysis failed'')])"
  have ax: "axios_error ?e"
    by (simp add: error_500_def axios_error_def axios_response_def)
  have nn: "\<not> nullish (body ?e)"
    by (simp add: error_500_def body_def)
  have rr: "response_received ?e"
    by (simp add: error_500_def response_received_def)
  from handleError_returns [of ?e] ax nn
  obtain r where r: "handleError ?e = Inr r"
    and s: "response_received ?e \<longrightarrow>
              field r ''status'' = field (field ?e ''response'') ''status'' \<and>
              field r ''message'' = js_or (field (body ?e) ''message'')
                                      (js_or (field (body ?e) ''error'') (JStr ''Server error''))"
    by blast
  from s rr have "field r ''status'' = JNum 500 \<and> field r ''message'' = JStr ''Analysis failed''"
    by (simp add: error_500_def body_def js_or_def)
  with r ax nn show ?thesis by blast
qed

text \<open>
  Claim C9 as stated fails at two axios errors of a 500 answer. With the JSON body
  \<open>null\<close> the handler throws a \<open>TypeError\<close> instead of returning; with the body
  \<open>{"message": 42}\<close> it returns an object whose \<open>message\<close> is the number 42, not a
  string.
\<close>

theorem handleError_counterexample:
  "axios_error (error_500 JNull) \<and>
   handleError (error_500 JNull) = Inl TypeError \<and>
   axios_error (error_500 (JObj [(''message'', JNum 42)])) \<and>
   handleError (error_500 (JObj [(''message'', JNum 42)]))
     = Inr (JObj [(''message'', JNum 42), (''status'', JNum 500),
                  (''data'', JObj [(''message'', JNum 42)])]) \<and>
   \<not> is_str (field (JObj [(''message'', JNum 42), (''status'', JNum 500),
                  (''data'', JObj [(''message'', JNum 42)])]) ''message'')"
  by (simp add: error_500_def axios_error_def axios_response_def handleError_def get_def js_or_def)

section \<open>Properties of the dispatch\<close>

lemma identifyMaterials_eq:
  "identifyMaterials net img =
     ([image_request ''/identify-materials'' img],
      unwrap (net (image_request ''/identify-materials'' img)))"
  by (simp add: identifyMaterials_def post_def image_request_def unwrap_def Let_def)

lemma documentProgress_eq:
  "documentProgress net img =
     ([image_request ''/document-progress'' img],
      unwrap (net (image_request ''/document-progress'' img)))"
  by (simp add: documentProgress_def post_def image_request_def unwrap_def Let_def)

lemma structuralAnalysis_eq:
  "structuralAnalysis net img =
     ([image_request ''/structural-analysis'' img],
      unwrap (net (image_request ''/structural-analysis'' img)))"
  by (simp add: structuralAnalysis_def post_def image_request_def unwrap_def Let_def)

lemma analyzeStructure_eq:
  "analyzeStructure net img (Some t) =
     ([analyze_request t img], unwrap (net (analyze_request t img)))"
  by (simp add: analyzeStructure_def post_def analyze_request_def unwrap_def Let_def)

lemma analyzeStructure_default:
  "analyzeStructure net img None = analyzeStructure net img (Some ''comprehensive'')"
  by (simp add: analyzeStructure_def)

lemma dispatch_eq:
  "dispatch net t img = ([selected_request t img], unwrap (net (selected_request t img)))"
  by (simp add: dispatch_def selected_request_def identifyMaterials_eq documentProgress_eq
      structuralAnalysis_eq analyzeStructure_eq)

lemma handleAnalyze_no_image:
  "selectedImage st = None \<Longrightarrow>
   handleAnalyze net st = ([], st\<lparr>error := JStr ''Please select an image first''\<rparr>, None)"
  by (simp add: handleAnalyze_def)

lemma handleAnalyze_image:
  "selectedImage st = Some img \<Longrightarrow>
   handleAnalyze net st =
     ([selected_request (analysisType st) img],
      settle (st\<lparr>loading := True, error := JNull, results := JNull\<rparr>)
        (unwrap (net (selected_request (analysisType st) img))))"
  by (simp add: handleAnalyze_def dispatch_eq Let_def)

text \<open>
  Claim C7. For every analysis type \<open>t\<close> and selected image, \<open>handleAnalyze\<close> sends
  exactly one request: to \<open>/identify-materials\<close> for \<open>material_identification\<close>, to
  \<open>/document-progress\<close> for \<open>project_progress\<close>, to \<open>/structural-analysis\<close> for
  \<open>structural_analysis\<close> (each carrying the image only), and for every other value of
  the type, \<open>comprehensive\<close> among them, to \<open>/analyze\<close>, carrying the image and that
  type as \<open>analysis_type\<close>. Whatever the endpoint, the answer is treated by the same
  code: the method's \<open>unwrap\<close> of how the request settled, then \<open>settle\<close>. The four
  types the selector offers are covered, each by its own endpoint.
\<close>

theorem handleAnalyze_dispatch:
  assumes "selectedImage st = Some img" and "analysisType st = t"
  shows "\<exists>req. fst (handleAnalyze net st) = [req] \<and>
           snd (handleAnalyze net st) =
             settle (st\<lparr>loading := True, error := JNull, results := JNull\<rparr>) (unwrap (net req)) \<and>
           (t = ''material_identification'' \<longrightarrow> req = image_request ''/identify-materials'' img) \<and>
           (t = ''project_progress'' \<longrightarrow> req = image_request ''/document-progress'' img) \<and>
           (t = ''structural_analysis'' \<longrightarrow> req = image_request ''/structural-analysis'' img) \<and>
           (t \<noteq> ''material_identification'' \<and> t \<noteq> ''project_progress'' \<and>
            t \<noteq> ''structural_analysis'' \<longrightarrow> req = analyze_request t img) \<and>
           map fst analysisTypes =
             [''material_identification'', ''project_progress'', ''structural_analysis'',
              ''comprehensive'']"
  using assms
  by (simp add: handleAnalyze_image selected_request_def analysisTypes_def)

text \<open>
  The theorem at the sample run: the initial state with \<open>sample_image\<close> selected
  (type \<open>comprehensive\<close>) against \<open>ok_net\<close>. One request goes to \<open>/analyze\<close> with
  the image and the type, and the answer's data becomes the results.
\<close>

theorem handleAnalyze_dispatch_witness:
  "selectedImage (initial_state\<lparr>selectedImage := Some sample_image\<rparr>) = Some sample_image \<and>
   analysisType (initial_state\<lparr>selectedImage := Some sample_image\<rparr>) = ''comprehensive'' \<and>
   fst (handleAnalyze ok_net (initial_state\<lparr>selectedImage := Some sample_image\<rparr>)) =
     [\<lparr>verb = ''POST'', url = ''/analyze'',
       form = [(''image'', FilePart sample_image), (''analysis_type'', TextPart ''comprehensive'')]\<rparr>] \<and>
   snd (handleAnalyze ok_net (initial_state\<lparr>selectedImage := Some sample_image\<rparr>)) =
     (initial_state\<lparr>selectedImage := Some sample_image,
                    results := JObj [(''success'', JBool True), (''materials'', JArr [])]\<rparr>, None)"
proof -
  let ?st = "initial_state\<lparr>selectedImage := Some sample_image\<rparr>"
  have img: "selectedImage ?st = Some sample_image"
    by simp
  have ty: "analysisType ?st = ''comprehensive''"
    by (simp add: initial_state_def)
  from handleAnalyze_dispatch [OF img ty, of ok_net]
  obtain req where sent: "fst (handleAnalyze ok_net ?st) = [req]"
    and st: "snd (handleAnalyze ok_net ?st) =
               settle (?st\<lparr>loading := True, error := JNull, results := JNull\<rparr>) (unwrap (ok_net req))"
    and req: "req = analyze_request ''comprehensive'' sample_image"
    by auto
  have "settle (?st\<lparr>loading := True, error := JNull, results := JNull\<rparr>) (unwrap (ok_net req)) =
          (?st\<lparr>results := JObj [(''success'', JBool True), (''materials'', JArr [])]\<rparr>, None)"
    by (simp add: settle_def unwrap_def ok_net_def try_catch_def on_response_def js_or_def
        initial_state_def)
  with sent st req img ty show ?thesis
    by (simp add: analyze_request_def)
qed

text \<open>
  How \<open>handleAnalyze\<close> treats the answer (the same for every endpoint): a response
  whose \<open>success\<close> is truthy becomes the results, whatever its lists hold; one whose
  \<open>success\<close> is falsy becomes the error text; and a throw of the API call shows the
  thrown object's \<open>message\<close>.
\<close>

lemma settle_success:
  assumes "\<not> nullish response" and "truthy (field response ''success'')"
  shows "settle st (Inr response) =
           (st\<lparr>results := js_or (field response ''analysis'') response, loading := False\<rparr>, None)"
  using assms by (simp add: settle_def on_response_def get_not_nullish)

lemma settle_failure:
  assumes "\<not> nullish response" and "\<not> truthy (field response ''success'')"
  shows "settle st (Inr response) =
           (st\<lparr>error := js_or (field response ''message'') (JStr ''Analysis failed''),
               loading := False\<rparr>, None)"
  using assms by (simp add: settle_def on_response_def get_not_nullish)

lemma settle_thrown:
  assumes "\<not> nullish err"
  shows "settle st (Inl err) =
           (st\<lparr>error := js_or (field err ''message'') (JStr ''An error occurred during analysis''),
               loading := False\<rparr>, None)"
  using assms by (simp add: settle_def get_not_nullish)

lemma settle_loading:
  "loading (fst (settle st outcome)) = False"
  by (auto simp: settle_def split: sum.splits)

section \<open>Properties of the upload filter\<close>

lemma toLowerCase_literals [simp]:
  "toLowerCase ''image/*'' = ''image/*''"
  "toLowerCase ''.png'' = ''.png''"
  "toLowerCase ''.jpg'' = ''.jpg''"
  "toLowerCase ''.jpeg'' = ''.jpeg''"
  "toLowerCase ''.bmp'' = ''.bmp''"
  "toLowerCase ''.tiff'' = ''.tiff''"
  by (simp_all add: toLowerCase_def lower_char_def)

lemma upload_attr:
  "acceptPropAsAcceptAttr (accept upload_options) =
     [''image/*'', ''.png'', ''.jpg'', ''.jpeg'', ''.bmp'', ''.tiff'']"
  by (simp add: acceptPropAsAcceptAttr_def upload_options_def)

lemma accepts_upload:
  "accepts f [''image/*'', ''.png'', ''.jpg'', ''.jpeg'', ''.bmp'', ''.tiff''] =
     (image_mime f \<or> listed_extension f)"
  by (simp add: accepts_def entry_matches_def listed_extension_def image_mime_def
      endsWith_def baseMimeType_def Let_def)

lemma dropzone_accepted_subset:
  "set (dropzone_accepted opts files) \<subseteq>
     {f \<in> set files. fileAccepted f (acceptPropAsAcceptAttr (accept opts)) \<and>
                      fileMatchSize f (maxSize opts)}"
  by (auto simp: dropzone_accepted_def Let_def)

lemma dropzone_accepted_at_most_one:
  "length (dropzone_accepted upload_options files) \<le> 1"
  by (simp add: dropzone_accepted_def Let_def upload_options_def)

lemma onDrop_member: "onDrop fs = Some f \<Longrightarrow> f \<in> set fs"
  by (cases fs) (simp_all add: onDrop_def)

lemma withMimeType_name_size:
  "file_name (withMimeType mime_types f) = file_name f \<and>
   file_size (withMimeType mime_types f) = file_size f"
  by (simp add: withMimeType_def split: option.splits)

lemma withMimeType_typed: "file_type f \<noteq> [] \<Longrightarrow> withMimeType mime_types f = f"
  by (simp add: withMimeType_def)

text \<open>
  What the upload does guarantee: the file handed to the application is one of the dropped
  files (with its MIME type filled in from the extension, if it had none), is at most
  16 MiB large, and has an image MIME type \<^emph>\<open>or\<close> one of the five extensions (or
  Firefox's placeholder MIME type).
\<close>

lemma drop_event_selects:
  assumes "drop_event mime_types files = Some f"
  shows "f \<in> withMimeType mime_types ` set files \<and> file_size f \<le> 16777216 \<and>
         (image_mime f \<or> listed_extension f \<or> file_type f = ''application/x-moz-file'')"
proof -
  let ?files = "map (withMimeType mime_types) files"
  from assms have "f \<in> set (dropzone_accepted upload_options ?files)"
    by (simp add: drop_event_def onDrop_member)
  with dropzone_accepted_subset [of upload_options ?files]
  have "f \<in> set ?files"
    and "fileAccepted f (acceptPropAsAcceptAttr (accept upload_options))"
    and "fileMatchSize f (maxSize upload_options)"
    by auto
  then show ?thesis
    unfolding upload_attr
    by (auto simp: fileAccepted_def accepts_upload fileMatchSize_def upload_options_def)
qed

text \<open>Two or more acceptable files in one drop: none is selected.\<close>

lemma drop_event_too_many:
  assumes "1 < length (filter (\<lambda>f. fileAccepted f (acceptPropAsAcceptAttr (accept upload_options))
                               \<and> fileMatchSize f (maxSize upload_options))
                         (map (withMimeType mime_types) files))"
  shows "drop_event mime_types files = None"
  using assms by (simp add: drop_event_def dropzone_accepted_def Let_def onDrop_def upload_options_def)

text \<open>
  Claim C8 at a failing input: a drop of the single file \<open>site.gif\<close> of MIME type
  \<open>image/gif\<close> and 1000 bytes. Its name has none of the five extensions, yet the
  \<open>image/*\<close> entry of the accept option matches its MIME type, and the component hands
  it to the application, whatever the library's table of MIME types holds.
\<close>

theorem drop_event_gif:
  "drop_event mime_types
     [\<lparr>file_name = ''site.gif'', file_type = ''image/gif'', file_size = 1000\<rparr>] =
     Some \<lparr>file_name = ''site.gif'', file_type = ''image/gif'', file_size = 1000\<rparr> \<and>
   listed_extension \<lparr>file_name = ''site.gif'', file_type = ''image/gif'', file_size = 1000\<rparr> = False"
  unfolding drop_event_def dropzone_accepted_def upload_attr
  by (simp add: withMimeType_def onDrop_def fileAccepted_def accepts_upload
      fileMatchSize_def upload_options_def image_mime_def listed_extension_def baseMimeType_def
      toLowerCase_def lower_char_def endsWith_def Let_def)

text \<open>A file that arrives without a MIME type is judged by the type its extension
  stands for: where the table knows \<open>gif\<close>, a \<open>photo.gif\<close> without a type is selected
  as an \<open>image/gif\<close>.\<close>

lemma drop_event_inferred:
  assumes "mime_types ''gif'' = Some ''image/gif''"
  shows "drop_event mime_types [\<lparr>file_name = ''photo.gif'', file_type = '''', file_size = 1000\<rparr>] =
           Some \<lparr>file_name = ''photo.gif'', file_type = ''image/gif'', file_size = 1000\<rparr>"
proof -
  have "withMimeType mime_types \<lparr>file_name = ''photo.gif'', file_type = '''', file_size = 1000\<rparr> =
          \<lparr>file_name = ''photo.gif'', file_type = ''image/gif'', file_size = 1000\<rparr>"
    using assms by (simp add: withMimeType_def extension_def toLowerCase_def lower_char_def)
  then show ?thesis
    unfolding drop_event_def dropzone_accepted_def upload_attr
    by (simp add: onDrop_def fileAccepted_def accepts_upload fileMatchSize_def upload_options_def
        image_mime_def baseMimeType_def toLowerCase_def lower_char_def Let_def)
qed

section \<open>Properties of ResultsDisplay\<close>

lemma get_truthy: "truthy v \<Longrightarrow> get v k = Inr (field v k)"
  by (simp add: get_not_nullish truthy_not_nullish)

lemma bind_js_Inr_iff:
  "bind_js m f = Inr y \<longleftrightarrow> (\<exists>x. m = Inr x \<and> f x = Inr y)"
  by (cases m) simp_all

lemma as_string_str: "is_str v \<Longrightarrow> \<exists>s. as_string v = Inr s"
  by (cases v) (simp_all add: as_string_def)

lemma is_str_primitive: "is_str v \<Longrightarrow> primitive v"
  by (cases v) simp_all

lemma is_number_primitive: "is_number v \<Longrightarrow> primitive v"
  by (cases v) simp_all

lemma primitive_displayable: "primitive v \<Longrightarrow> displayable v"
  by (cases v) simp_all

lemma falsy_displayable: "\<not> truthy v \<Longrightarrow> displayable v"
  by (cases v) simp_all

lemma to_string_primitive: "primitive v \<Longrightarrow> \<exists>s. to_string e v = Inr s"
  by (cases v) simp_all

lemma to_number_primitive: "primitive v \<Longrightarrow> \<exists>x. to_number e v = Inr x"
  by (cases v) (simp_all add: to_number_def)

lemma js_gt_primitive: "primitive v \<Longrightarrow> \<exists>b. js_gt e v r = Inr b"
  using to_number_primitive [of v e] by (auto simp: js_gt_def)

lemma js_times_primitive: "primitive v \<Longrightarrow> \<exists>x. js_times e v r = Inr x"
  using to_number_primitive [of v e] by (auto simp: js_times_def)

text \<open>A map over a list returns, and its results have a property, when every call does.\<close>

lemma mapM_js_all:
  "(\<And>x. x \<in> set xs \<Longrightarrow> \<exists>y. f x = Inr y \<and> P y) \<Longrightarrow>
   \<exists>ys. mapM_js f xs = Inr ys \<and> list_all P ys"
proof (induction xs)
  case Nil
  then show ?case by simp
next
  case (Cons x xs)
  from Cons.prems obtain y where y: "f x = Inr y" "P y"
    by force
  from Cons obtain ys where "mapM_js f xs = Inr ys" "list_all P ys"
    by force
  with y show ?case by simp
qed

lemma js_map_all:
  assumes "is_arr v" and "\<And>x i. x \<in> set (elems v) \<Longrightarrow> \<exists>y. f x i = Inr y \<and> P y"
  shows "\<exists>ys. js_map v f = Inr ys \<and> list_all P ys"
proof -
  from assms(1) obtain xs where v: "v = JArr xs"
    by (cases v) simp_all
  have "\<exists>ys. mapM_js (\<lambda>(x, i). f x i) (zip xs [0..<length xs]) = Inr ys \<and> list_all P ys"
  proof (rule mapM_js_all)
    fix p assume p: "p \<in> set (zip xs [0..<length xs])"
    obtain x i where xi: "p = (x, i)"
      by (cases p)
    with p have "x \<in> set xs"
      by (auto dest: set_zip_leftD)
    with assms(2) [of x i] v xi show "\<exists>y. (case p of (x, i) \<Rightarrow> f x i) = Inr y \<and> P y"
      by simp
  qed
  with v show ?thesis by (simp add: js_map_def)
qed

lemma wf_list_map:
  assumes "wf_list v"
  shows "\<exists>ys. js_map v render_element = Inr ys \<and> list_all valid_tree ys"
proof (rule js_map_all)
  from assms show "is_arr v"
    by (simp add: wf_list_def)
next
  fix x i assume "x \<in> set (elems v)"
  with assms have "primitive x"
    by (simp add: wf_list_def list_all_iff)
  then show "\<exists>y. render_element x i = Inr y \<and> valid_tree y"
    by (simp add: render_element_def primitive_displayable)
qed

lemma render_material_ok:
  assumes "wf_material m"
  shows "\<exists>n. render_material e m i = Inr n \<and> valid_tree n"
proof -
  from assms have o: "\<not> nullish m" and n: "is_str (field m ''name'')"
    and t: "str_or_falsy (field m ''texture'')"
    and c: "primitive (field m ''confidence'')"
    and q: "displayable (field m ''quantity'')"
    and l: "displayable (field m ''location'')"
    by (simp_all add: wf_material_def is_obj_not_nullish primitive_displayable)
  from n obtain s where s: "as_string (field m ''name'') = Inr s"
    using as_string_str by blast
  from c obtain percent where percent: "js_times e (field m ''confidence'') 100 = Inr percent"
    using js_times_primitive by blast
  from c obtain high where high: "js_gt e (field m ''confidence'') (8 / 10) = Inr high"
    using js_gt_primitive by blast
  show ?thesis
  proof (cases "truthy (field m ''texture'')")
    case True
    with t have "is_str (field m ''texture'')"
      by (simp add: str_or_falsy_def)
    then obtain u where "as_string (field m ''texture'') = Inr u"
      using as_string_str by blast
    with True o s percent high q l show ?thesis
      by (simp add: render_material_def get_not_nullish Let_def)
  next
    case False
    with o s percent high q l show ?thesis
      by (simp add: render_material_def get_not_nullish Let_def falsy_displayable)
  qed
qed

lemma render_features_ok:
  assumes "wf_features f"
  shows "\<exists>n. render_features e f = Inr n \<and> valid_tree n"
proof (cases "truthy f")
  case False
  then show ?thesis
    by (simp add: render_features_def falsy_displayable)
next
  case True
  with assms have a: "is_arr f" and p: "list_all primitive (elems f)"
    by (simp_all add: wf_features_def)
  from a have "primitive (field f ''length'')"
    by (cases f) simp_all
  then obtain some where some: "js_gt e (field f ''length'') 0 = Inr some"
    using js_gt_primitive by blast
  have "\<exists>ys. js_map f render_feature = Inr ys \<and> list_all valid_tree ys"
  proof (rule js_map_all [OF a])
    fix x i assume "x \<in> set (elems f)"
    with p have "primitive x"
      by (simp add: list_all_iff)
    then show "\<exists>y. render_feature x i = Inr y \<and> valid_tree y"
      by (simp add: render_feature_def primitive_displayable)
  qed
  then obtain ys where "js_map f render_feature = Inr ys" "list_all valid_tree ys"
    by blast
  with True some show ?thesis
    by (simp add: render_features_def)
qed

lemma dimensions_valid:
  assumes "list_all (\<lambda>p. primitive (snd p)) (entries d)"
  shows "list_all valid_tree
           (map (\<lambda>(key, v). El ''Typography'' [] [key, Str '': '', Val v, Str ''m'']) (entries d))"
proof -
  have keys: "\<And>p. p \<in> set (entries d) \<Longrightarrow> valid_tree (fst p)"
    by (cases d) (auto simp: entries_def Let_def)
  with assms show ?thesis
    by (auto simp: list_all_iff primitive_displayable)
qed

lemma render_component_ok:
  assumes "wf_component c"
  shows "\<exists>n. render_component e c i = Inr n \<and> valid_tree n"
proof -
  from assms have o: "\<not> nullish c" and t: "is_str (field c ''component_type'')"
    and d: "is_str (field c ''condition'')"
    and m: "displayable (field c ''material'')"
    and l: "displayable (field c ''location'')"
    and k: "displayable (field c ''construction_method'')"
    and dims: "list_all (\<lambda>p. primitive (snd p)) (entries (js_or (field c ''dimensions'') (JObj [])))"
    and f: "wf_features (field c ''notable_features'')"
    by (simp_all add: wf_component_def is_obj_not_nullish primitive_displayable)
  from t obtain s where s: "as_string (field c ''component_type'') = Inr s"
    using as_string_str by blast
  from d obtain u where u: "as_string (field c ''condition'') = Inr u"
    using as_string_str by blast
  from d have dd: "displayable (field c ''condition'')"
    by (simp add: is_str_primitive primitive_displayable)
  from render_features_ok [OF f] obtain b where
    b: "render_features e (field c ''notable_features'') = Inr b" "valid_tree b"
    by blast
  from o s u b dd m l k dimensions_valid [OF dims] show ?thesis
    by (simp add: render_component_def get_not_nullish Let_def)
qed

lemma render_recommendation_ok:
  assumes "primitive x"
  shows "\<exists>n. render_recommendation e x i = Inr n \<and> valid_tree n"
proof -
  from assms obtain s where "to_string e x = Inr s"
    using to_string_primitive by blast
  then show ?thesis
    by (simp add: render_recommendation_def)
qed

lemma render_score_ok:
  assumes "primitive v"
  shows "\<exists>n. render_score e v = Inr n \<and> valid_tree n"
proof -
  from assms obtain positive where p: "js_gt e v 0 = Inr positive"
    using js_gt_primitive by blast
  from assms obtain percent where "js_times e v 100 = Inr percent"
    using js_times_primitive by blast
  with p show ?thesis
    by (simp add: render_score_def)
qed

lemma renderMaterials_Nothing:
  assumes "truthy r"
  shows "renderMaterials e r = Inr Nothing \<longleftrightarrow> absent r ''materials'' \<or> empty_list r ''materials''"
  using assms
  by (auto simp: renderMaterials_def absent_def empty_list_def get_truthy bind_js_Inr_iff)

lemma renderStructuralComponents_Nothing:
  assumes "truthy r"
  shows "renderStructuralComponents e r = Inr Nothing \<longleftrightarrow>
           absent r ''structural_components'' \<or> empty_list r ''structural_components''"
  using assms
  by (auto simp: renderStructuralComponents_def absent_def empty_list_def get_truthy bind_js_Inr_iff)

lemma renderProjectProgress_Nothing:
  assumes "truthy r"
  shows "renderProjectProgress r = Inr Nothing \<longleftrightarrow> absent r ''project_progress''"
  using assms
  by (auto simp: renderProjectProgress_def absent_def get_truthy bind_js_Inr_iff)

lemma renderRecommendations_Nothing:
  assumes "truthy r"
  shows "renderRecommendations e r = Inr Nothing \<longleftrightarrow>
           absent r ''recommendations'' \<or> empty_list r ''recommendations''"
  using assms
  by (auto simp: renderRecommendations_def absent_def empty_list_def get_truthy bind_js_Inr_iff)

lemma length_displayable: "is_arr v \<Longrightarrow> displayable (field v ''length'')"
  by (cases v) simp_all

lemma renderMaterials_ok:
  assumes "truthy r"
    and "absent r ''materials'' \<or>
         is_arr (field r ''materials'') \<and> list_all wf_material (elems (field r ''materials''))"
  shows "\<exists>n. renderMaterials e r = Inr n \<and> valid_tree n"
proof (cases "absent r ''materials''")
  case True
  with assms(1) show ?thesis
    by (simp add: renderMaterials_def absent_def get_truthy)
next
  case False
  with assms(2) have a: "is_arr (field r ''materials'')"
    and w: "list_all wf_material (elems (field r ''materials''))"
    by simp_all
  have "\<exists>ys. js_map (field r ''materials'') (render_material e) = Inr ys \<and> list_all valid_tree ys"
  proof (rule js_map_all [OF a])
    fix x i assume "x \<in> set (elems (field r ''materials''))"
    with w have "wf_material x"
      by (simp add: list_all_iff)
    then show "\<exists>y. render_material e x i = Inr y \<and> valid_tree y"
      by (rule render_material_ok)
  qed
  then obtain ys where
    "js_map (field r ''materials'') (render_material e) = Inr ys" "list_all valid_tree ys"
    by blast
  with assms(1) False length_displayable [OF a] show ?thesis
    by (simp add: renderMaterials_def absent_def get_truthy)
qed

lemma renderStructuralComponents_ok:
  assumes "truthy r"
    and "absent r ''structural_components'' \<or>
         is_arr (field r ''structural_components'') \<and>
         list_all wf_component (elems (field r ''structural_components''))"
  shows "\<exists>n. renderStructuralComponents e r = Inr n \<and> valid_tree n"
proof (cases "absent r ''structural_components''")
  case True
  with assms(1) show ?thesis
    by (simp add: renderStructuralComponents_def absent_def get_truthy)
next
  case False
  with assms(2) have a: "is_arr (field r ''structural_components'')"
    and w: "list_all wf_component (elems (field r ''structural_components''))"
    by simp_all
  have "\<exists>ys. js_map (field r ''structural_components'') (render_component e) = Inr ys \<and>
              list_all valid_tree ys"
  proof (rule js_map_all [OF a])
    fix x i assume "x \<in> set (elems (field r ''structural_components''))"
    with w have "wf_component x"
      by (simp add: list_all_iff)
    then show "\<exists>y. render_component e x i = Inr y \<and> valid_tree y"
      by (rule render_component_ok)
  qed
  then obtain ys where
    "js_map (field r ''structural_components'') (render_component e) = Inr ys"
    "list_all valid_tree ys"
    by blast
  with assms(1) False length_displayable [OF a] show ?thesis
    by (simp add: renderStructuralComponents_def absent_def get_truthy)
qed

lemma renderProjectProgress_ok:
  assumes "truthy r"
    and "absent r ''project_progress'' \<or> wf_progress (field r ''project_progress'')"
  shows "\<exists>n. renderProjectProgress r = Inr n \<and> valid_tree n"
proof (cases "absent r ''project_progress''")
  case True
  with assms(1) show ?thesis
    by (simp add: renderProjectProgress_def absent_def get_truthy)
next
  case False
  let ?p = "field r ''project_progress''"
  from False assms(2) have n: "is_number (field ?p ''completion_percentage'')"
    and s: "is_str (field ?p ''phase'')"
    and t: "primitive (field ?p ''timeline'')"
    and a: "wf_list (field ?p ''completed_elements'')"
    and b: "wf_list (field ?p ''planned_elements'')"
    by (simp_all add: wf_progress_def)
  from n obtain x where x: "toFixed (field ?p ''completion_percentage'') 1 = Inr x" "valid_tree x"
    by (cases "field ?p ''completion_percentage''") (simp_all add: toFixed_def)
  from n have nd: "displayable (field ?p ''completion_percentage'')"
    by (simp add: is_number_primitive primitive_displayable)
  from s obtain ph where ph: "as_string (field ?p ''phase'') = Inr ph"
    using as_string_str by blast
  from wf_list_map [OF a] obtain xs where
    xs: "js_map (field ?p ''completed_elements'') render_element = Inr xs" "list_all valid_tree xs"
    by blast
  from wf_list_map [OF b] obtain ys where
    ys: "js_map (field ?p ''planned_elements'') render_element = Inr ys" "list_all valid_tree ys"
    by blast
  from assms(1) False x nd ph xs ys t show ?thesis
    by (simp add: renderProjectProgress_def absent_def get_truthy js_and_def primitive_displayable)
qed

lemma renderRecommendations_ok:
  assumes "truthy r"
    and "absent r ''recommendations'' \<or> wf_list (field r ''recommendations'')"
  shows "\<exists>n. renderRecommendations e r = Inr n \<and> valid_tree n"
proof (cases "absent r ''recommendations''")
  case True
  with assms(1) show ?thesis
    by (simp add: renderRecommendations_def absent_def get_truthy)
next
  case False
  with assms(2) have a: "is_arr (field r ''recommendations'')"
    and p: "list_all primitive (elems (field r ''recommendations''))"
    by (simp_all add: wf_list_def)
  have "\<exists>ys. js_map (field r ''recommendations'') (render_recommendation e) = Inr ys \<and>
              list_all valid_tree ys"
  proof (rule js_map_all [OF a])
    fix x i assume "x \<in> set (elems (field r ''recommendations''))"
    with p have "primitive x"
      by (simp add: list_all_iff)
    then show "\<exists>y. render_recommendation e x i = Inr y \<and> valid_tree y"
      by (rule render_recommendation_ok)
  qed
  then obtain ys where
    "js_map (field r ''recommendations'') (render_recommendation e) = Inr ys"
    "list_all valid_tree ys"
    by blast
  with assms(1) False length_displayable [OF a] show ?thesis
    by (simp add: renderRecommendations_def absent_def get_truthy)
qed

lemma ResultsDisplay_falsy: "\<not> truthy r \<Longrightarrow> ResultsDisplay e r = Inr Nothing"
  by (simp add: ResultsDisplay_def)

lemma react_render_falsy: "\<not> truthy r \<Longrightarrow> react_render e r = Inr Nothing"
  by (simp add: react_render_def ResultsDisplay_falsy)

lemma react_render_Inr:
  "react_render e r = Inr t \<longleftrightarrow> ResultsDisplay e r = Inr t \<and> valid_tree t"
  by (auto simp: react_render_def bind_js_Inr_iff)

lemma ResultsDisplay_tree:
  assumes "truthy r" and "ResultsDisplay e r = Inr t"
  shows "\<exists>header summary m sc p rc description.
           t = El ''Box'' [] [header, summary, El ''Box'' [] [m, sc, p, rc], description] \<and>
           renderMaterials e r = Inr m \<and> renderStructuralComponents e r = Inr sc \<and>
           renderProjectProgress r = Inr p \<and> renderRecommendations e r = Inr rc"
  using assms
  by (auto simp: ResultsDisplay_def Let_def bind_js_Inr_iff)

lemma react_render_total:
  assumes "truthy r" and "wf_results r"
  shows "\<exists>t. react_render e r = Inr t"
proof -
  from assms(2) have "primitive (field r ''confidence_score'')"
    by (simp add: wf_results_def)
  from render_score_ok [OF this] obtain h where
    h: "render_score e (field r ''confidence_score'') = Inr h" "valid_tree h"
    by blast
  from assms(2) have s: "displayable (field r ''summary'')"
    and d: "displayable (field r ''detailed_description'')"
    by (simp_all add: wf_results_def primitive_displayable)
  from assms obtain m where m: "renderMaterials e r = Inr m" "valid_tree m"
    using renderMaterials_ok [of r e] by (auto simp: wf_results_def)
  from assms obtain sc where sc: "renderStructuralComponents e r = Inr sc" "valid_tree sc"
    using renderStructuralComponents_ok [of r e] by (auto simp: wf_results_def)
  from assms obtain p where p: "renderProjectProgress r = Inr p" "valid_tree p"
    using renderProjectProgress_ok [of r] by (auto simp: wf_results_def)
  from assms obtain rc where rc: "renderRecommendations e r = Inr rc" "valid_tree rc"
    using renderRecommendations_ok [of r e] by (auto simp: wf_results_def)
  from assms(1) h s d m sc p rc show ?thesis
    by (simp add: react_render_def ResultsDisplay_def Let_def js_and_def)
qed

text \<open>
  Claim C10, as amended. \<open>ResultsDisplay\<close> renders \<open>null\<close> when \<open>results\<close> is \<open>null\<close>
  (or any other falsy value). For any other value, each of the four section renderers
  returns \<open>null\<close>, without failing, exactly when its field is absent (missing or falsy)
  or, for the three list-valued fields, empty; and whenever the component renders, the four
  places of its section box hold what the four renderers returned, so a section is in the
  tree only when its field is present and, for a list, not empty. The component renders
  whenever the fields that are present have the shapes of the wire format
  (\<open>wf_results\<close>); it is not total beyond that.
\<close>

theorem ResultsDisplay_sections:
  "react_render e JNull = Inr Nothing \<and>
   (\<not> truthy r \<longrightarrow> react_render e r = Inr Nothing) \<and>
   (truthy r \<longrightarrow>
      (renderMaterials e r = Inr Nothing \<longleftrightarrow>
         absent r ''materials'' \<or> empty_list r ''materials'') \<and>
      (renderStructuralComponents e r = Inr Nothing \<longleftrightarrow>
         absent r ''structural_components'' \<or> empty_list r ''structural_components'') \<and>
      (renderProjectProgress r = Inr Nothing \<longleftrightarrow> absent r ''project_progress'') \<and>
      (renderRecommendations e r = Inr Nothing \<longleftrightarrow>
         absent r ''recommendations'' \<or> empty_list r ''recommendations'') \<and>
      (\<forall>t. react_render e r = Inr t \<longrightarrow>
         (\<exists>header summary m sc p rc description.
            t = El ''Box'' [] [header, summary, El ''Box'' [] [m, sc, p, rc], description] \<and>
            (m = Nothing \<longleftrightarrow> absent r ''materials'' \<or> empty_list r ''materials'') \<and>
            (sc = Nothing \<longleftrightarrow>
               absent r ''structural_components'' \<or> empty_list r ''structural_components'') \<and>
            (p = Nothing \<longleftrightarrow> absent r ''project_progress'') \<and>
            (rc = Nothing \<longleftrightarrow> absent r ''recommendations'' \<or> empty_list r ''recommendations''))) \<and>
      (wf_results r \<longrightarrow> (\<exists>t. react_render e r = Inr t)))"
proof (intro conjI impI allI)
  show "react_render e JNull = Inr Nothing"
    by (simp add: react_render_falsy)
next
  assume "\<not> truthy r"
  then show "react_render e r = Inr Nothing"
    by (rule react_render_falsy)
next
  assume "truthy r"
  then show "renderMaterials e r = Inr Nothing \<longleftrightarrow>
               absent r ''materials'' \<or> empty_list r ''materials''"
    by (rule renderMaterials_Nothing)
next
  assume "truthy r"
  then show "renderStructuralComponents e r = Inr Nothing \<longleftrightarrow>
               absent r ''structural_components'' \<or> empty_list r ''structural_components''"
    by (rule renderStructuralComponents_Nothing)
next
  assume "truthy r"
  then show "renderProjectProgress r = Inr Nothing \<longleftrightarrow> absent r ''project_progress''"
    by (rule renderProjectProgress_Nothing)
next
  assume "truthy r"
  then show "renderRecommendations e r = Inr Nothing \<longleftrightarrow>
               absent r ''recommendations'' \<or> empty_list r ''recommendations''"
    by (rule renderRecommendations_Nothing)
next
  fix t
  assume r: "truthy r" and "react_render e r = Inr t"
  then have t: "ResultsDisplay e r = Inr t"
    by (simp add: react_render_Inr)
  from ResultsDisplay_tree [OF r t] obtain header summary m sc p rc description where
    tree: "t = El ''Box'' [] [header, summary, El ''Box'' [] [m, sc, p, rc], description]"
    and m: "renderMaterials e r = Inr m"
    and sc: "renderStructuralComponents e r = Inr sc"
    and p: "renderProjectProgress r = Inr p"
    and rc: "renderRecommendations e r = Inr rc"
    by blast
  from m renderMaterials_Nothing [OF r, of e]
  have 1: "m = Nothing \<longleftrightarrow> absent r ''materials'' \<or> empty_list r ''materials''"
    by simp
  from sc renderStructuralComponents_Nothing [OF r, of e]
  have 2: "sc = Nothing \<longleftrightarrow>
             absent r ''structural_components'' \<or> empty_list r ''structural_components''"
    by simp
  from p renderProjectProgress_Nothing [OF r]
  have 3: "p = Nothing \<longleftrightarrow> absent r ''project_progress''"
    by simp
  from rc renderRecommendations_Nothing [OF r, of e]
  have 4: "rc = Nothing \<longleftrightarrow> absent r ''recommendations'' \<or> empty_list r ''recommendations''"
    by simp
  from tree 1 2 3 4
  show "\<exists>header summary m sc p rc description.
          t = El ''Box'' [] [header, summary, El ''Box'' [] [m, sc, p, rc], description] \<and>
          (m = Nothing \<longleftrightarrow> absent r ''materials'' \<or> empty_list r ''materials'') \<and>
          (sc = Nothing \<longleftrightarrow>
             absent r ''structural_components'' \<or> empty_list r ''structural_components'') \<and>
          (p = Nothing \<longleftrightarrow> absent r ''project_progress'') \<and>
          (rc = Nothing \<longleftrightarrow> absent r ''recommendations'' \<or> empty_list r ''recommendations'')"
    by blast
next
  assume "truthy r" and "wf_results r"
  then show "\<exists>t. react_render e r = Inr t"
    by (rule react_render_total)
qed

text \<open>
  The theorem at \<open>sample_results\<close> (an answer of \<open>/identify-materials\<close>, with no
  progress and an empty component list): the value is truthy and well-formed, the
  components and progress sections are omitted, the materials section is not, and the
  component renders.
\<close>

theorem ResultsDisplay_sections_witness:
  "truthy sample_results \<and> wf_results sample_results \<and>
   absent sample_results ''project_progress'' \<and>
   empty_list sample_results ''structural_components'' \<and>
   renderStructuralComponents sample_engine sample_results = Inr Nothing \<and>
   renderProjectProgress sample_results = Inr Nothing \<and>
   renderMaterials sample_engine sample_results \<noteq> Inr Nothing \<and>
   (\<exists>t. react_render sample_engine sample_results = Inr t)"
proof -
  have t: "truthy sample_results"
    by (simp add: sample_results_def)
  have w: "wf_results sample_results"
    by (simp add: sample_results_def wf_results_def wf_list_def absent_def wf_material_def
        str_or_falsy_def)
  have a: "absent sample_results ''project_progress''"
    by (simp add: sample_results_def absent_def)
  have e: "empty_list sample_results ''structural_components''"
    by (simp add: sample_results_def empty_list_def)
  have m: "\<not> (absent sample_results ''materials'' \<or> empty_list sample_results ''materials'')"
    by (simp add: sample_results_def absent_def empty_list_def)
  from ResultsDisplay_sections [of sample_engine sample_results] t w a e m
  show ?thesis
    by blast
qed

text \<open>
  The guards are on the four fields only. Inside a field that is present the component
  reads without guards: a progress object without its \<open>completion_percentage\<close> makes
  \<open>toFixed\<close> throw, and so does a material without a \<open>name\<close>. A value that cannot be
  converted makes the conversion throw: a recommendation, or a confidence score, that is
  an object with a \<open>toString\<close> property of its own. And an object where a text is
  expected is refused by React.
\<close>

lemma ResultsDisplay_progress_without_percentage:
  "ResultsDisplay e (JObj [(''project_progress'', JObj [(''phase'', JStr ''foundation'')])])
     = Inl TypeError"
  by (simp add: ResultsDisplay_def render_score_def js_gt_def to_number_def
      renderMaterials_def renderStructuralComponents_def
      renderProjectProgress_def toFixed_def Let_def)

lemma ResultsDisplay_material_without_name:
  "ResultsDisplay e (JObj [(''materials'', JArr [JObj [(''confidence'', JNum 1)]])])
     = Inl TypeError"
proof -
  have "renderMaterials e (JObj [(''materials'', JArr [JObj [(''confidence'', JNum 1)]])])
          = Inl TypeError"
    by (simp add: renderMaterials_def render_material_def js_map_def as_string_def get_def)
  then show ?thesis
    by (simp add: ResultsDisplay_def render_score_def js_gt_def to_number_def Let_def)
qed

lemma ResultsDisplay_recommendation_object:
  "ResultsDisplay e (JObj [(''recommendations'', JArr [JObj [(''toString'', JNum 1)]])])
     = Inl TypeError"
proof -
  have "renderRecommendations e (JObj [(''recommendations'', JArr [JObj [(''toString'', JNum 1)]])])
          = Inl TypeError"
    by (simp add: renderRecommendations_def render_recommendation_def js_map_def get_def)
  then show ?thesis
    by (simp add: ResultsDisplay_def render_score_def js_gt_def to_number_def Let_def
        renderMaterials_def renderStructuralComponents_def renderProjectProgress_def)
qed

lemma ResultsDisplay_score_object:
  "ResultsDisplay e (JObj [(''confidence_score'', JObj [(''toString'', JNum 1)])]) = Inl TypeError"
  by (simp add: ResultsDisplay_def render_score_def js_gt_def to_number_def)

lemma react_render_object_child:
  "react_render e (JObj [(''summary'', JObj [(''text'', JStr ''ok'')])]) = Inl ReactChildError"
  by (simp add: react_render_def ResultsDisplay_def render_score_def js_gt_def to_number_def
      renderMaterials_def renderStructuralComponents_def renderProjectProgress_def
      renderRecommendations_def js_and_def Let_def)

text \<open>
  Claim C10 as stated fails at \<open>partial_progress\<close>, a results value whose progress object
  has a phase and nothing else: it is a partial result shape, its \<open>project_progress\<close>
  field is present, and rendering it fails with a \<open>TypeError\<close> (\<open>toFixed\<close> of the
  missing \<open>completion_percentage\<close>) instead of omitting what is missing.
\<close>

theorem ResultsDisplay_counterexample:
  "truthy partial_progress \<and>
   field partial_progress ''project_progress'' = JObj [(''phase'', JStr ''foundation'')] \<and>
   ResultsDisplay sample_engine partial_progress = Inl TypeError \<and>
   react_render sample_engine partial_progress = Inl TypeError"
  using ResultsDisplay_progress_without_percentage [of sample_engine]
  by (simp add: partial_progress_def react_render_def)

section \<open>Properties of the MaterialMatcher and of the ResultAssembler\<close>

lemma clip01_bounds: "0 \<le> clip01 x \<and> clip01 x \<le> 1"
  by (simp add: clip01_def)

lemma weights: "texture_weight < color_weight"
  by (simp add: color_weight_def texture_weight_def)

lemma MaterialMatcher_member:
  "m \<in> set (MaterialMatcher sc threshold fs kb) \<longleftrightarrow>
     (\<exists>d \<in> set kb. m = match_material sc fs d \<and> threshold < match_confidence sc fs d)"
  by (auto simp: MaterialMatcher_def match_material_def)

lemma distinct_names_unique:
  assumes "distinct (map def_name kb)" and "d \<in> set kb" and "d' \<in> set kb"
    and "def_name d' = def_name d"
  shows "d' = d"
  using assms by (meson distinct_map inj_onD)

text \<open>
  Claim C6. In the MaterialMatcher of the spec, the color weight is strictly greater
  than the texture weight, and for every material definition \<open>d\<close> of a knowledge base
  (with distinct names) the confidence is the weighted sum of the color score and the
  texture score clipped to \<open>[0,1]\<close>; the result holds a material of \<open>d\<close>'s name if and
  only if that confidence exceeds the acceptance threshold, and that material carries
  this confidence. The default threshold is \<open>0.3\<close>.
\<close>

theorem MaterialMatcher_accepts:
  assumes "distinct (map def_name kb)" and "d \<in> set kb"
  shows "texture_weight < color_weight \<and> default_threshold = 3 / 10 \<and>
         match_confidence sc fs d =
           clip01 (color_weight * color_score sc fs d + texture_weight * texture_score sc fs d) \<and>
         0 \<le> match_confidence sc fs d \<and> match_confidence sc fs d \<le> 1 \<and>
         ((\<exists>m \<in> set (MaterialMatcher sc threshold fs kb). m_name m = def_name d) \<longleftrightarrow>
            threshold < match_confidence sc fs d) \<and>
         (\<forall>m \<in> set (MaterialMatcher sc threshold fs kb).
            m_name m = def_name d \<longrightarrow> m_confidence m = match_confidence sc fs d)"
proof -
  have unique: "d' = d" if "d' \<in> set kb" and "def_name d' = def_name d" for d'
    using distinct_names_unique [OF assms(1) assms(2) that] .
  have incl: "(\<exists>m \<in> set (MaterialMatcher sc threshold fs kb). m_name m = def_name d) \<longleftrightarrow>
                threshold < match_confidence sc fs d"
  proof
    assume "\<exists>m \<in> set (MaterialMatcher sc threshold fs kb). m_name m = def_name d"
    then obtain d' where "d' \<in> set kb" and "def_name d' = def_name d"
      and "threshold < match_confidence sc fs d'"
      by (auto simp: MaterialMatcher_member match_material_def)
    with unique show "threshold < match_confidence sc fs d"
      by blast
  next
    assume "threshold < match_confidence sc fs d"
    with assms(2) have "match_material sc fs d \<in> set (MaterialMatcher sc threshold fs kb)"
      by (auto simp: MaterialMatcher_member)
    then show "\<exists>m \<in> set (MaterialMatcher sc threshold fs kb). m_name m = def_name d"
      by (rule bexI [rotated]) (simp add: match_material_def)
  qed
  have conf: "\<forall>m \<in> set (MaterialMatcher sc threshold fs kb).
                m_name m = def_name d \<longrightarrow> m_confidence m = match_confidence sc fs d"
  proof (intro ballI impI)
    fix m assume "m \<in> set (MaterialMatcher sc threshold fs kb)" and n: "m_name m = def_name d"
    then obtain d' where d': "d' \<in> set kb" and m: "m = match_material sc fs d'"
      by (auto simp: MaterialMatcher_member)
    from m n have "def_name d' = def_name d"
      by (simp add: match_material_def)
    with d' unique have "d' = d"
      by blast
    with m show "m_confidence m = match_confidence sc fs d"
      by (simp add: match_material_def)
  qed
  from incl conf clip01_bounds [of "color_weight * color_score sc fs d + texture_weight * texture_score sc fs d"]
  show ?thesis
    by (simp add: weights default_threshold_def match_confidence_def)
qed

text \<open>
  The theorem at the sample knowledge base with the default threshold: concrete scores
  \<open>0.6 * 0.9 + 0.4 * 0.5 = 0.74\<close> and is kept, steel scores \<open>0.26\<close> and is not.
\<close>

theorem MaterialMatcher_accepts_witness:
  "distinct (map def_name sample_kb) \<and> hd sample_kb \<in> set sample_kb \<and>
   match_confidence sample_scoring sample_features (hd sample_kb) = 74 / 100 \<and>
   default_threshold < match_confidence sample_scoring sample_features (hd sample_kb) \<and>
   (\<exists>m \<in> set (MaterialMatcher sample_scoring default_threshold sample_features sample_kb).
      m_name m = ''concrete'') \<and>
   map m_name (MaterialMatcher sample_scoring default_threshold sample_features sample_kb)
     = [''concrete'']"
proof -
  have d: "distinct (map def_name sample_kb)"
    by (simp add: sample_kb_def)
  have h: "hd sample_kb \<in> set sample_kb"
    by (simp add: sample_kb_def)
  have n: "def_name (hd sample_kb) = ''concrete''"
    by (simp add: sample_kb_def)
  have c: "match_confidence sample_scoring sample_features (hd sample_kb) = 74 / 100"
    by (simp add: match_confidence_def sample_scoring_def sample_kb_def clip01_def
        color_weight_def texture_weight_def)
  have t: "default_threshold < match_confidence sample_scoring sample_features (hd sample_kb)"
    by (simp add: c default_threshold_def)
  have l: "map m_name (MaterialMatcher sample_scoring default_threshold sample_features sample_kb)
             = [''concrete'']"
    by (simp add: MaterialMatcher_def match_material_def match_confidence_def sample_scoring_def
        sample_kb_def clip01_def color_weight_def texture_weight_def default_threshold_def)
  from MaterialMatcher_accepts [OF d h, of sample_scoring sample_features default_threshold] t n
  have "\<exists>m \<in> set (MaterialMatcher sample_scoring default_threshold sample_features sample_kb).
          m_name m = ''concrete''"
    by simp
  with d h c t l show ?thesis
    by blast
qed

lemma ranks_before_total: "ranks_before a b \<or> ranks_before b a"
  by (cases a; cases b) (auto simp: ranks_before_def)

lemma ranks_before_trans:
  "ranks_before a b \<Longrightarrow> ranks_before b c \<Longrightarrow> ranks_before a c"
  by (cases a; cases b; cases c) (auto simp: ranks_before_def)

lemma set_place: "set (place key x xs) = insert x (set xs)"
  by (induction xs) auto

lemma length_place: "length (place key x xs) = Suc (length xs)"
  by (induction xs) auto

lemma sorted_place:
  assumes "sorted_wrt (\<lambda>a b. ranks_before (key a) (key b)) xs"
  shows "sorted_wrt (\<lambda>a b. ranks_before (key a) (key b)) (place key x xs)"
  using assms
proof (induction xs)
  case Nil
  then show ?case by simp
next
  case (Cons y ys)
  show ?case
  proof (cases "ranks_before (key x) (key y)")
    case True
    with Cons.prems show ?thesis
      by (auto intro: ranks_before_trans)
  next
    case False
    with ranks_before_total [of "key x" "key y"] have "ranks_before (key y) (key x)"
      by simp
    with False Cons show ?thesis
      by (auto simp: set_place)
  qed
qed

lemma sorted_rank_by: "sorted_wrt (\<lambda>a b. ranks_before (key a) (key b)) (rank_by key xs)"
  by (induction xs) (simp_all add: sorted_place)

lemma set_rank_by: "set (rank_by key xs) = set xs"
  by (induction xs) (simp_all add: set_place)

lemma length_rank_by: "length (rank_by key xs) = length xs"
  by (induction xs) (simp_all add: length_place)

lemma ranked_by_confidence:
  "sorted_wrt (\<lambda>a b. fst (key b) \<le> fst (key a)) (rank_by key xs)"
  by (rule sorted_wrt_mono_rel [OF _ sorted_rank_by [of key xs]])
     (auto simp: ranks_before_def split: prod.splits)

lemma ranked_by_share:
  "sorted_wrt (\<lambda>a b. fst (key a) = fst (key b) \<longrightarrow> fst (snd (key b)) \<le> fst (snd (key a)))
     (rank_by key xs)"
  by (rule sorted_wrt_mono_rel [OF _ sorted_rank_by [of key xs]])
     (auto simp: ranks_before_def split: prod.splits)

lemma ranked_by_name:
  "sorted_wrt (\<lambda>a b. fst (key a) = fst (key b) \<and> fst (snd (key a)) = fst (snd (key b)) \<longrightarrow>
                      snd (snd (key a)) \<le> snd (snd (key b)))
     (rank_by key xs)"
  by (rule sorted_wrt_mono_rel [OF _ sorted_rank_by [of key xs]])
     (auto simp: ranks_before_def split: prod.splits)

text \<open>
  Claim C3. In every result the ResultAssembler of the spec composes, the materials list
  and the structural components list are each non-increasing in confidence; of two
  entries with equal confidence the one with the larger matched pixel-share comes first;
  and entries equal in both are in lexicographic order of their names. The lists hold
  the entries they were given, no more and no fewer.
\<close>

theorem ResultAssembler_ordering:
  "sorted_wrt (\<lambda>a b. m_confidence b \<le> m_confidence a) (materials (ResultAssembler ms cs)) \<and>
   sorted_wrt (\<lambda>a b. m_confidence a = m_confidence b \<longrightarrow> m_share b \<le> m_share a)
     (materials (ResultAssembler ms cs)) \<and>
   sorted_wrt (\<lambda>a b. m_confidence a = m_confidence b \<and> m_share a = m_share b \<longrightarrow>
                       m_name a \<le> m_name b)
     (materials (ResultAssembler ms cs)) \<and>
   sorted_wrt (\<lambda>a b. c_confidence b \<le> c_confidence a)
     (structural_components (ResultAssembler ms cs)) \<and>
   sorted_wrt (\<lambda>a b. c_confidence a = c_confidence b \<longrightarrow> c_share b \<le> c_share a)
     (structural_components (ResultAssembler ms cs)) \<and>
   sorted_wrt (\<lambda>a b. c_confidence a = c_confidence b \<and> c_share a = c_share b \<longrightarrow>
                       c_type a \<le> c_type b)
     (structural_components (ResultAssembler ms cs)) \<and>
   set (materials (ResultAssembler ms cs)) = set ms \<and>
   length (materials (ResultAssembler ms cs)) = length ms \<and>
   set (structural_components (ResultAssembler ms cs)) = set cs \<and>
   length (structural_components (ResultAssembler ms cs)) = length cs"
  using ranked_by_confidence [of material_key ms] ranked_by_share [of material_key ms]
    ranked_by_name [of material_key ms]
    ranked_by_confidence [of component_key cs] ranked_by_share [of component_key cs]
    ranked_by_name [of component_key cs]
  by (simp add: ResultAssembler_def material_key_def component_key_def set_rank_by length_rank_by)

text \<open>
  The theorem at the three sample materials: concrete (\<open>0.8\<close>) comes first, and of
  brick and steel (both \<open>0.5\<close>) brick, with the larger pixel-share, comes before steel.
\<close>

theorem ResultAssembler_ordering_witness:
  "sorted_wrt (\<lambda>a b. m_confidence b \<le> m_confidence a)
     (materials (ResultAssembler sample_materials [])) \<and>
   sorted_wrt (\<lambda>a b. m_confidence a = m_confidence b \<longrightarrow> m_share b \<le> m_share a)
     (materials (ResultAssembler sample_materials [])) \<and>
   map m_name (materials (ResultAssembler sample_materials [])) = [''concrete'', ''brick'', ''steel'']"
proof -
  have "map m_name (materials (ResultAssembler sample_materials [])) =
          [''concrete'', ''brick'', ''steel'']"
    by (simp add: ResultAssembler_def sample_materials_def material_key_def ranks_before_def)
  with ResultAssembler_ordering [of sample_materials "[]"] show ?thesis
    by blast
qed

end
